theory Spec2Isabelle
  imports Main "HOL-Library.Word"
begin

unbundle bit_operations_syntax

section \<open>The eblob binary log (binlog.c)\<close>

text \<open>
  A shallow embedding of the write-ahead log of eblob: the on-disk headers and their
  checks, create, open, append, positional read, replay and close. Every C function of
  binlog.c is a HOL function of the same name that takes the state it touches (the
  handle \<open>struct eblob_binlog_cfg\<close> and the operating system's view of the log file)
  and returns the new one.

  Offsets and buffer sizes (\<open>off_t\<close>, \<open>ssize_t\<close>) are integers and the size fields
  stored in a record header are natural numbers. The widths are those of the platforms
  the code is written for: \<open>off_t\<close> and \<open>ssize_t\<close> are signed and \<open>size_t\<close> and the
  size fields of a record header are unsigned, all of 64 bits (the code prints the
  fields with \<open>%lld\<close>). In two places the code computes with a size field in unsigned
  arithmetic, and the model computes modulo \<open>2 ^ 64\<close> as C does: the recovery scan adds
  the size field it read to its offset (\<open>to_off_t\<close> converts the sum to \<open>off_t\<close>), and
  an append stores the sum of the caller's two sizes in the size field (\<open>to_u64\<close>
  converts it). The other sums of the code are taken exactly.
\<close>

subsection \<open>Outcomes and error numbers\<close>

text \<open>
  A call returns (\<open>Ret\<close>), stops at a failed \<open>assert\<close> (\<open>AssertFail\<close>, the process
  aborts) or dereferences a null pointer (\<open>SegFault\<close>).
\<close>

datatype 'a outcome = Ret 'a | AssertFail | SegFault

text \<open>The error numbers of errno.h that the code names or that the model's system calls report.\<close>

definition EINTR :: int where "EINTR = 4"
definition EIO :: int where "EIO = 5"
definition EBADF :: int where "EBADF = 9"
definition EWOULDBLOCK :: int where "EWOULDBLOCK = 11"
definition ENOMEM :: int where "ENOMEM = 12"
definition EEXIST :: int where "EEXIST = 17"
definition EINVAL :: int where "EINVAL = 22"
definition ENOENT :: int where "ENOENT = 2"
definition EFAULT :: int where "EFAULT = 14"
definition ENOTSUP :: int where "ENOTSUP = 95"

subsection \<open>Data\<close>

type_synonym byte = "8 word"

text \<open>
  The conversion of an integer to \<open>off_t\<close> (the value in \<open>- 2 ^ 63 ..< 2 ^ 63\<close> that is
  congruent modulo \<open>2 ^ 64\<close>) and to an unsigned 64-bit field.
\<close>

definition to_off_t :: "int \<Rightarrow> int" where
  "to_off_t x = (x + 2 ^ 63) mod 2 ^ 64 - 2 ^ 63"

definition to_u64 :: "int \<Rightarrow> nat" where
  "to_u64 x = nat (x mod 2 ^ 64)"

text \<open>\<open>struct eblob_binlog_disk_hdr\<close>: magic, version, flags.\<close>

record dhdr =
  dh_magic :: "byte list"
  dh_version :: "32 word"
  dh_flags :: "64 word"

text \<open>
  \<open>struct eblob_binlog_disk_record_hdr\<close>: type, size of the payload (metadata and
  data), size of the metadata, flags, key.
\<close>

record rhdr =
  rh_type :: int
  rh_size :: nat
  rh_meta_size :: nat
  rh_flags :: "64 word"
  rh_key :: "byte list"

text \<open>
  Modelled from the spec: binlog.h is not among the sources. What the code takes from it
  is a parameter of every function: the magic string, the version, the flag bits and
  their mask, the sentinels of the record types, the defaults of \<open>binlog_init\<close>, the
  sizes \<open>sizeof\<close> gives the two on-disk structures and their object representations
  (the bytes \<open>pwrite\<close> takes from a structure and the structure \<open>pread\<close> leaves from
  bytes). \<open>NDEBUG\<close> says whether \<open>assert\<close> is compiled out.
\<close>

record binlog_h =
  BINLOG_MAGIC :: "byte list"
  BINLOG_VERSION :: "32 word"
  FLAGS_CFG_SYNC :: "64 word"
  FLAGS_CFG_PREALLOC :: "64 word"
  FLAGS_CFG_TRUNCATE :: "64 word"
  FLAGS_CFG_ALL :: "64 word"
  TYPE_FIRST :: int
  TYPE_LAST :: int
  DEFAULTS_FLAGS :: "64 word"
  DEFAULTS_PREALLOC_STEP :: int
  PATH_MAX :: nat
  sizeof_dhdr :: nat
  sizeof_rhdr :: nat
  repr_dhdr :: "dhdr \<Rightarrow> byte list"
  value_dhdr :: "byte list \<Rightarrow> dhdr"
  repr_rhdr :: "rhdr \<Rightarrow> byte list"
  value_rhdr :: "byte list \<Rightarrow> rhdr"
  NDEBUG :: bool

text \<open>
  \<open>struct eblob_binlog_cfg\<close>, the handle: flags, preallocated size, preallocation step,
  path, descriptor (-1 when not open), the header read at open, the write cursor.
\<close>

record bcfg =
  b_flags :: "64 word"
  b_prealloc_size :: int
  b_prealloc_step :: int
  b_path :: "string option"
  b_fd :: int
  b_disk_hdr :: "dhdr option"
  b_position :: int

text \<open>
  \<open>struct eblob_binlog_ctl\<close>, the record descriptor. A pointer is an option (\<open>None\<close> is
  NULL); a buffer pointer holds the bytes from its target to the end of the allocation.
  \<open>c_cfg\<close> holds the handle by value: the functions return the handle they updated.
\<close>

record ctl =
  c_cfg :: "bcfg option"
  c_type :: int
  c_key :: "byte list option"
  c_flags :: "64 word"
  c_meta :: "byte list option"
  c_meta_size :: int
  c_data :: "byte list option"
  c_size :: int

subsection \<open>The operating system\<close>

text \<open>
  One file matters, the one at the handle's path (a null path is a fault and an empty
  one names no file). The world holds its bytes (\<open>None\<close> when it does not exist), the
  descriptors of the process that are in use (those the code opens are open on this
  file), the descriptor that holds the advisory lock, and what the code cannot decide:
  a script of faults, one entry taken by each call, and the indeterminate value of
  uninitialised automatic storage. In the script \<open>Pass\<close> lets the call behave as the state
  says, \<open>Fail e\<close> makes it fail with the error number \<open>e\<close> (error numbers are positive: an
  entry with another number counts as \<open>Pass\<close>), and \<open>Short n\<close> lets a read or a write
  move at most \<open>n\<close> bytes; an empty script means \<open>Pass\<close>. Every call is appended to
  \<open>calls\<close>.
\<close>

datatype fault = Pass | Fail int | Short nat

datatype syscall =
    Open_creat_excl
  | Open_rdwr bool
  | Flock int bool
  | Ftruncate int nat
  | Fstat int
  | Pread int nat int
  | Pwrite int "byte list" int
  | Fdatasync int
  | Fsync int
  | Allocate int int
  | Pagecache_hint int
  | Close int
  | Malloc nat

record world =
  disk :: "byte list option"
  fds :: "nat list"
  lock_owner :: "int option"
  script :: "fault list"
  calls :: "syscall list"
  indeterminate :: nat

definition next_fault :: "world \<Rightarrow> fault" where
  "next_fault w =
     (case script w of
        [] \<Rightarrow> Pass
      | f # _ \<Rightarrow> (case f of Fail e \<Rightarrow> if 0 < e then Fail e else Pass | _ \<Rightarrow> f))"

definition enter :: "syscall \<Rightarrow> world \<Rightarrow> world" where
  "enter c w = w\<lparr>script := tl (script w), calls := calls w @ [c]\<rparr>"

definition is_open :: "int \<Rightarrow> world \<Rightarrow> bool" where
  "is_open fd w = (0 \<le> fd \<and> nat fd \<in> set (fds w))"

definition contents :: "world \<Rightarrow> byte list" where
  "contents w = (case disk w of None \<Rightarrow> [] | Some f \<Rightarrow> f)"

text \<open>The lowest descriptor number not in use.\<close>

definition lowest_free :: "nat list \<Rightarrow> nat" where
  "lowest_free used = (case filter (\<lambda>n. n \<notin> set used) [0 ..< Suc (length used)] of
      [] \<Rightarrow> Suc (length used) | n # _ \<Rightarrow> n)"

text \<open>Writing \<open>bs\<close> at offset \<open>off\<close>: a gap past the end of the file reads as zeros.\<close>

definition put_bytes :: "byte list \<Rightarrow> nat \<Rightarrow> byte list \<Rightarrow> byte list" where
  "put_bytes f off bs =
     take off (f @ replicate (off - length f) 0) @ bs @ drop (off + length bs) f"

definition resize :: "byte list \<Rightarrow> nat \<Rightarrow> byte list" where
  "resize f n = take n (f @ replicate (n - length f) 0)"

text \<open>
  A system call returns \<open>Inl e\<close> for -1 with errno \<open>e\<close>, and \<open>Inr v\<close> for its value.
\<close>

definition sys_open_creat_excl :: "string option \<Rightarrow> world \<Rightarrow> (int + int) \<times> world" where
  "sys_open_creat_excl path w =
     (let f = next_fault w; w1 = enter Open_creat_excl w in
      case f of
        Fail e \<Rightarrow> (Inl e, w1)
      | _ \<Rightarrow>
          if path = None then (Inl EFAULT, w1)
          else if path = Some [] then (Inl ENOENT, w1)
          else if disk w1 \<noteq> None then (Inl EEXIST, w1)
          else let fd = lowest_free (fds w1) in
               (Inr (int fd), w1\<lparr>disk := Some [], fds := fd # fds w1\<rparr>))"

definition sys_open_rdwr :: "string option \<Rightarrow> bool \<Rightarrow> world \<Rightarrow> (int + int) \<times> world" where
  "sys_open_rdwr path o_sync w =
     (let f = next_fault w; w1 = enter (Open_rdwr o_sync) w in
      case f of
        Fail e \<Rightarrow> (Inl e, w1)
      | _ \<Rightarrow>
          if path = None then (Inl EFAULT, w1)
          else if path = Some [] \<or> disk w1 = None then (Inl ENOENT, w1)
          else let fd = lowest_free (fds w1) in
               (Inr (int fd), w1\<lparr>fds := fd # fds w1\<rparr>))"

definition sys_close :: "int \<Rightarrow> world \<Rightarrow> (int + unit) \<times> world" where
  "sys_close fd w =
     (let f = next_fault w; w1 = enter (Close fd) w in
      if \<not> is_open fd w1 then (Inl EBADF, w1)
      else let w2 = w1\<lparr>fds := removeAll (nat fd) (fds w1),
                        lock_owner := (if lock_owner w1 = Some fd then None else lock_owner w1)\<rparr> in
           case f of Fail e \<Rightarrow> (Inl e, w2) | _ \<Rightarrow> (Inr (), w2))"

text \<open>
  \<open>flock\<close>: \<open>True\<close> is \<open>LOCK_EX | LOCK_NB\<close>, \<open>False\<close> is \<open>LOCK_UN\<close>. The lock belongs
  to the descriptor: another descriptor of this process that holds it makes the call
  fail, as another process does (a \<open>Fail\<close> of the script).
\<close>

definition sys_flock :: "int \<Rightarrow> bool \<Rightarrow> world \<Rightarrow> (int + unit) \<times> world" where
  "sys_flock fd ex w =
     (let f = next_fault w; w1 = enter (Flock fd ex) w in
      case f of
        Fail e \<Rightarrow> (Inl e, w1)
      | _ \<Rightarrow>
          if \<not> is_open fd w1 then (Inl EBADF, w1)
          else if ex then
            (if lock_owner w1 \<noteq> None \<and> lock_owner w1 \<noteq> Some fd then (Inl EWOULDBLOCK, w1)
             else (Inr (), w1\<lparr>lock_owner := Some fd\<rparr>))
          else (Inr (), w1\<lparr>lock_owner := (if lock_owner w1 = Some fd then None else lock_owner w1)\<rparr>))"

definition sys_ftruncate :: "int \<Rightarrow> nat \<Rightarrow> world \<Rightarrow> (int + unit) \<times> world" where
  "sys_ftruncate fd n w =
     (let f = next_fault w; w1 = enter (Ftruncate fd n) w in
      case f of
        Fail e \<Rightarrow> (Inl e, w1)
      | _ \<Rightarrow>
          if \<not> is_open fd w1 then (Inl EBADF, w1)
          else (Inr (), w1\<lparr>disk := Some (resize (contents w1) n)\<rparr>))"

definition sys_fstat :: "int \<Rightarrow> world \<Rightarrow> (int + int) \<times> world" where
  "sys_fstat fd w =
     (let f = next_fault w; w1 = enter (Fstat fd) w in
      case f of
        Fail e \<Rightarrow> (Inl e, w1)
      | _ \<Rightarrow>
          if \<not> is_open fd w1 then (Inl EBADF, w1)
          else (Inr (int (length (contents w1))), w1))"

text \<open>\<open>pread\<close> returns the bytes it read: their number is its return value.\<close>

definition sys_pread :: "int \<Rightarrow> nat \<Rightarrow> int \<Rightarrow> world \<Rightarrow> (int + byte list) \<times> world" where
  "sys_pread fd n off w =
     (let f = next_fault w; w1 = enter (Pread fd n off) w in
      case f of
        Fail e \<Rightarrow> (Inl e, w1)
      | _ \<Rightarrow>
          if \<not> is_open fd w1 then (Inl EBADF, w1)
          else if off < 0 then (Inl EINVAL, w1)
          else let m = (case f of Short k \<Rightarrow> min k n | _ \<Rightarrow> n) in
               (Inr (take m (drop (nat off) (contents w1))), w1))"

text \<open>
  \<open>pwrite\<close> of the first \<open>n\<close> bytes of a buffer returns the number of bytes written; a
  null buffer is a fault.
\<close>

definition sys_pwrite ::
  "int \<Rightarrow> byte list option \<Rightarrow> nat \<Rightarrow> int \<Rightarrow> world \<Rightarrow> (int + nat) \<times> world" where
  "sys_pwrite fd bp n off w =
     (let f = next_fault w;
          w1 = enter (Pwrite fd (case bp of None \<Rightarrow> [] | Some buf \<Rightarrow> take n buf) off) w in
      case f of
        Fail e \<Rightarrow> (Inl e, w1)
      | _ \<Rightarrow>
          if \<not> is_open fd w1 then (Inl EBADF, w1)
          else if off < 0 then (Inl EINVAL, w1)
          else
            (case bp of
               None \<Rightarrow> (Inl EFAULT, w1)
             | Some buf \<Rightarrow>
                 let m = (case f of Short k \<Rightarrow> min k n | _ \<Rightarrow> n);
                     bs = take m buf in
                 (Inr (length bs), w1\<lparr>disk := Some (put_bytes (contents w1) (nat off) bs)\<rparr>)))"

text \<open>\<open>malloc\<close>: \<open>False\<close> is a null result.\<close>

definition sys_malloc :: "nat \<Rightarrow> world \<Rightarrow> bool \<times> world" where
  "sys_malloc n w =
     (let f = next_fault w; w1 = enter (Malloc n) w in
      case f of Fail e \<Rightarrow> (False, w1) | _ \<Rightarrow> (True, w1))"

text \<open>
  Modelled from the spec: \<open>binlog_datasync\<close>, \<open>binlog_sync\<close>, \<open>_binlog_allocate\<close> and
  \<open>eblob_pagecache_hint\<close> are declared in headers that are not among the sources. They
  return 0 or a negative error number; the space reservation extends the file with
  zeros up to the size asked for.
\<close>

definition binlog_datasync :: "int \<Rightarrow> world \<Rightarrow> int \<times> world" where
  "binlog_datasync fd w =
     (let f = next_fault w; w1 = enter (Fdatasync fd) w in
      case f of
        Fail e \<Rightarrow> (- e, w1)
      | _ \<Rightarrow> if \<not> is_open fd w1 then (- EBADF, w1) else (0, w1))"

definition binlog_sync :: "int \<Rightarrow> world \<Rightarrow> int \<times> world" where
  "binlog_sync fd w =
     (let f = next_fault w; w1 = enter (Fsync fd) w in
      case f of
        Fail e \<Rightarrow> (- e, w1)
      | _ \<Rightarrow> if \<not> is_open fd w1 then (- EBADF, w1) else (0, w1))"

definition binlog_allocate :: "int \<Rightarrow> int \<Rightarrow> world \<Rightarrow> int \<times> world" where
  "binlog_allocate fd sz w =
     (let f = next_fault w; w1 = enter (Allocate fd sz) w in
      case f of
        Fail e \<Rightarrow> (- e, w1)
      | _ \<Rightarrow>
          if \<not> is_open fd w1 then (- EBADF, w1)
          else if sz \<le> 0 then (- EINVAL, w1)
          else (0, w1\<lparr>disk := Some (contents w1 @ replicate (nat sz - length (contents w1)) 0)\<rparr>))"

definition eblob_pagecache_hint :: "int \<Rightarrow> world \<Rightarrow> int \<times> world" where
  "eblob_pagecache_hint fd w =
     (let f = next_fault w; w1 = enter (Pagecache_hint fd) w in
      case f of Fail e \<Rightarrow> (- e, w1) | _ \<Rightarrow> (0, w1))"

subsection \<open>Header checks\<close>

text \<open>\<open>strcmp\<close> compares two character arrays up to their first NUL.\<close>

definition cstr :: "byte list \<Rightarrow> byte list" where
  "cstr bs = takeWhile (\<lambda>c. c \<noteq> 0) bs"

definition binlog_verify_hdr :: "binlog_h \<Rightarrow> dhdr \<Rightarrow> int" where
  "binlog_verify_hdr K d =
     (if cstr (dh_magic d) \<noteq> cstr (BINLOG_MAGIC K) then - EINVAL
      else if dh_version d \<noteq> BINLOG_VERSION K then - ENOTSUP
      else if dh_flags d AND NOT (FLAGS_CFG_ALL K) \<noteq> 0 then - EINVAL
      else 0)"

definition binlog_verify_record_hdr :: "binlog_h \<Rightarrow> rhdr \<Rightarrow> int" where
  "binlog_verify_record_hdr K r =
     (if rh_type r \<le> TYPE_FIRST K \<or> rh_type r \<ge> TYPE_LAST K then - EINVAL
      else if rh_flags r \<noteq> 0 then - EINVAL
      else 0)"

subsection \<open>The functions of binlog.c\<close>

text \<open>
  \<open>binlog_extend\<close>: with preallocation enabled the handle's preallocated size grows by
  one step, then the space is reserved.
\<close>

definition binlog_extend :: "binlog_h \<Rightarrow> bcfg \<Rightarrow> int \<Rightarrow> world \<Rightarrow> int \<times> bcfg \<times> world" where
  "binlog_extend K bcfg fd w =
     (if b_flags bcfg AND FLAGS_CFG_PREALLOC K \<noteq> 0 then
        let bcfg1 = bcfg\<lparr>b_prealloc_size := b_prealloc_size bcfg + b_prealloc_step bcfg\<rparr> in
        (case binlog_allocate fd (b_prealloc_size bcfg1) w of
           (err, w1) \<Rightarrow> if err \<noteq> 0 then (err, bcfg1, w1) else (0, bcfg1, w1))
      else (0, bcfg, w))"

definition binlog_hdr_write :: "binlog_h \<Rightarrow> int \<Rightarrow> dhdr option \<Rightarrow> world \<Rightarrow> int outcome \<times> world" where
  "binlog_hdr_write K fd dp w =
     (case dp of
        None \<Rightarrow> (Ret (- EINVAL), w)
      | Some d \<Rightarrow>
          if fd < 0 then (Ret (- EINVAL), w)
          else if \<not> NDEBUG K \<and> binlog_verify_hdr K d \<noteq> 0 then (AssertFail, w)
          else
            (case sys_pwrite fd (Some (repr_dhdr K d)) (sizeof_dhdr K) 0 w of
               (Inl e, w1) \<Rightarrow> (Ret (- e), w1)
             | (Inr n, w1) \<Rightarrow>
                 if n \<noteq> sizeof_dhdr K then (Ret (- EINTR), w1)
                 else
                   (case binlog_datasync fd w1 of
                      (err, w2) \<Rightarrow> if err \<noteq> 0 then (Ret err, w2) else (Ret 0, w2))))"

text \<open>\<open>binlog_hdr_read\<close> returns the header it allocated when it returns 0.\<close>

definition binlog_hdr_read :: "binlog_h \<Rightarrow> int \<Rightarrow> world \<Rightarrow> int outcome \<times> dhdr option \<times> world" where
  "binlog_hdr_read K fd w =
     (if \<not> NDEBUG K \<and> fd < 0 then (AssertFail, None, w)
      else
        (case sys_malloc (sizeof_dhdr K) w of
           (False, w1) \<Rightarrow> (Ret (- ENOMEM), None, w1)
         | (True, w1) \<Rightarrow>
             (case sys_pread fd (sizeof_dhdr K) 0 w1 of
                (Inl e, w2) \<Rightarrow> (Ret (- e), None, w2)
              | (Inr bs, w2) \<Rightarrow>
                  if length bs \<noteq> sizeof_dhdr K then (Ret (- EINTR), None, w2)
                  else
                    let d = value_dhdr K bs; err = binlog_verify_hdr K d in
                    if err \<noteq> 0 then (Ret err, None, w2) else (Ret 0, Some d, w2))))"

text \<open>The tail of \<open>binlog_create\<close> from the label \<open>err_close\<close>.\<close>

definition create_close :: "int \<Rightarrow> int \<Rightarrow> bcfg \<Rightarrow> world \<Rightarrow> int outcome \<times> bcfg \<times> world" where
  "create_close fd err bcfg w = (case sys_close fd w of (_, w1) \<Rightarrow> (Ret err, bcfg, w1))"

definition binlog_create :: "binlog_h \<Rightarrow> bcfg \<Rightarrow> world \<Rightarrow> int outcome \<times> bcfg \<times> world" where
  "binlog_create K bcfg w =
     (if \<not> NDEBUG K \<and> (b_path bcfg = None \<or> b_path bcfg = Some []) then (AssertFail, bcfg, w)
      else
        (case sys_open_creat_excl (b_path bcfg) w of
           (Inl e, w1) \<Rightarrow> (Ret (- e), bcfg, w1)
         | (Inr fd, w1) \<Rightarrow>
             (case binlog_extend K bcfg fd w1 of
                (err, bcfg1, w2) \<Rightarrow>
                  if err \<noteq> 0 then create_close fd err bcfg1 w2
                  else
                    let d = \<lparr>dh_magic = BINLOG_MAGIC K, dh_version = BINLOG_VERSION K,
                             dh_flags = b_flags bcfg1\<rparr> in
                    (case binlog_hdr_write K fd (Some d) w2 of
                       (Ret err, w3) \<Rightarrow> create_close fd err bcfg1 w3
                     | (AssertFail, w3) \<Rightarrow> (AssertFail, bcfg1, w3)
                     | (SegFault, w3) \<Rightarrow> (SegFault, bcfg1, w3)))))"

text \<open>
  \<open>binlog_read_record_hdr\<close> returns the header when all its bytes were read, also when
  the header does not verify.
\<close>

definition binlog_read_record_hdr ::
  "binlog_h \<Rightarrow> bcfg \<Rightarrow> int \<Rightarrow> world \<Rightarrow> int outcome \<times> rhdr option \<times> world" where
  "binlog_read_record_hdr K bcfg offset w =
     (if \<not> NDEBUG K \<and> (b_fd bcfg < 0 \<or> offset \<le> 0) then (AssertFail, None, w)
      else
        (case sys_pread (b_fd bcfg) (sizeof_rhdr K) offset w of
           (Inl e, w1) \<Rightarrow> (Ret (- e), None, w1)
         | (Inr bs, w1) \<Rightarrow>
             if length bs \<noteq> sizeof_rhdr K then (Ret (- EINTR), None, w1)
             else let r = value_rhdr K bs in (Ret (binlog_verify_record_hdr K r), Some r, w1)))"

definition binlog_read_record_data ::
  "binlog_h \<Rightarrow> bcfg \<Rightarrow> int \<Rightarrow> int \<Rightarrow> world \<Rightarrow> byte list option outcome \<times> world" where
  "binlog_read_record_data K bcfg offset sz w =
     (if \<not> NDEBUG K \<and> (b_fd bcfg < 0 \<or> offset \<le> 0 \<or> sz \<le> 0) then (AssertFail, w)
      else
        (case sys_malloc (nat sz) w of
           (False, w1) \<Rightarrow> (Ret None, w1)
         | (True, w1) \<Rightarrow>
             (case sys_pread (b_fd bcfg) (nat sz) offset w1 of
                (Inl e, w2) \<Rightarrow> (Ret None, w2)
              | (Inr bs, w2) \<Rightarrow>
                  if int (length bs) \<noteq> sz then (Ret None, w2) else (Ret (Some bs), w2))))"

text \<open>
  The loop of \<open>binlog_get_next_lsn\<close>. It may run forever, so it is a partial function:
  \<open>None\<close> is a scan that does not return. In \<open>lsn += rhdr.size + sizeof(rhdr)\<close> the
  operands are unsigned: the sum is taken modulo \<open>2 ^ 64\<close> and converted to \<open>off_t\<close>.
\<close>

partial_function (option) next_lsn_loop ::
  "binlog_h \<Rightarrow> bcfg \<Rightarrow> int \<Rightarrow> world \<Rightarrow> (int outcome \<times> world) option" where
  "next_lsn_loop K bcfg lsn w =
     (case binlog_read_record_hdr K bcfg lsn w of
        (Ret err, Some r, w1) \<Rightarrow>
          if err = 0
          then next_lsn_loop K bcfg (to_off_t (lsn + (int (rh_size r) + int (sizeof_rhdr K)))) w1
          else Some (Ret lsn, w1)
      | (Ret err, None, w1) \<Rightarrow> Some (Ret lsn, w1)
      | (AssertFail, _, w1) \<Rightarrow> Some (AssertFail, w1)
      | (SegFault, _, w1) \<Rightarrow> Some (SegFault, w1))"

declare next_lsn_loop.simps [code]

definition binlog_get_next_lsn :: "binlog_h \<Rightarrow> bcfg \<Rightarrow> world \<Rightarrow> (int outcome \<times> world) option" where
  "binlog_get_next_lsn K bcfg w = next_lsn_loop K bcfg (int (sizeof_dhdr K)) w"

text \<open>\<open>binlog_init\<close>: \<open>lg\<close> says whether the logger is non-null.\<close>

definition binlog_init :: "binlog_h \<Rightarrow> string option \<Rightarrow> bool \<Rightarrow> world \<Rightarrow> bcfg option \<times> world" where
  "binlog_init K path lg w =
     (if \<not> lg then (None, w)
      else
        (case path of
           None \<Rightarrow> (None, w)
         | Some p \<Rightarrow>
             if length p = 0 \<or> length p > PATH_MAX K then (None, w)
             else
               (case sys_malloc 1 w of
                  (False, w1) \<Rightarrow> (None, w1)
                | (True, w1) \<Rightarrow>
                    (case sys_malloc (length p + 1) w1 of
                       (False, w2) \<Rightarrow> (None, w2)
                     | (True, w2) \<Rightarrow>
                         (Some \<lparr>b_flags = DEFAULTS_FLAGS K, b_prealloc_size = 0,
                                b_prealloc_step = DEFAULTS_PREALLOC_STEP K, b_path = Some p,
                                b_fd = - 1, b_disk_hdr = None, b_position = 0\<rparr>, w2)))))"

text \<open>
  \<open>binlog_open\<close>, in the order of the source: the labels \<open>err_close\<close> and
  \<open>err_unlock\<close>, then the function from its end (header read and scan) to its start.
\<close>

definition err_close :: "int \<Rightarrow> int \<Rightarrow> bcfg \<Rightarrow> world \<Rightarrow> int outcome \<times> bcfg option \<times> world" where
  "err_close fd err bcfg w = (case sys_close fd w of (_, w1) \<Rightarrow> (Ret err, Some bcfg, w1))"

definition err_unlock :: "int \<Rightarrow> int \<Rightarrow> bcfg \<Rightarrow> world \<Rightarrow> int outcome \<times> bcfg option \<times> world" where
  "err_unlock fd err bcfg w = (case sys_flock fd False w of (_, w1) \<Rightarrow> err_close fd err bcfg w1)"

text \<open>From \<open>bcfg->fd = fd\<close> on: page-cache hint, stat, header read, scan for the cursor.\<close>

definition open_recover ::
  "binlog_h \<Rightarrow> int \<Rightarrow> bcfg \<Rightarrow> world \<Rightarrow> (int outcome \<times> bcfg option \<times> world) option" where
  "open_recover K fd b1 w4 =
     (let b2 = b1\<lparr>b_fd := fd\<rparr> in
      (case eblob_pagecache_hint (b_fd b2) w4 of
         (_, w5) \<Rightarrow>
           (case sys_fstat (b_fd b2) w5 of
              (Inl e, w6) \<Rightarrow> Some (err_unlock fd (- e) b2 w6)
            | (Inr st_size, w6) \<Rightarrow>
                let b3 = b2\<lparr>b_prealloc_size := st_size\<rparr> in
                (case binlog_hdr_read K (b_fd b3) w6 of
                   (AssertFail, _, w7) \<Rightarrow> Some (AssertFail, Some b3, w7)
                 | (SegFault, _, w7) \<Rightarrow> Some (SegFault, Some b3, w7)
                 | (Ret err, dp, w7) \<Rightarrow>
                     if err \<noteq> 0 then Some (err_unlock fd err b3 w7)
                     else
                       let b4 = b3\<lparr>b_disk_hdr := dp\<rparr> in
                       (case binlog_get_next_lsn K b4 w7 of
                          None \<Rightarrow> None
                        | Some (Ret lsn, w8) \<Rightarrow> Some (Ret 0, Some (b4\<lparr>b_position := lsn\<rparr>), w8)
                        | Some (AssertFail, w8) \<Rightarrow> Some (AssertFail, Some b4, w8)
                        | Some (SegFault, w8) \<Rightarrow> Some (SegFault, Some b4, w8))))))"

text \<open>From the second \<open>open\<close> on: open, lock, truncate if asked.\<close>

definition open_existing ::
  "binlog_h \<Rightarrow> bcfg \<Rightarrow> world \<Rightarrow> (int outcome \<times> bcfg option \<times> world) option" where
  "open_existing K b1 w1 =
     (case sys_open_rdwr (b_path b1) (b_flags b1 AND FLAGS_CFG_SYNC K \<noteq> 0) w1 of
        (Inl e, w2) \<Rightarrow> Some (Ret (- e), Some b1, w2)
      | (Inr fd, w2) \<Rightarrow>
          (case sys_flock fd True w2 of
             (Inl e, w3) \<Rightarrow> Some (err_close fd (- e) b1 w3)
           | (Inr _, w3) \<Rightarrow>
               if b_flags b1 AND FLAGS_CFG_TRUNCATE K \<noteq> 0 then
                 (case sys_ftruncate fd (sizeof_dhdr K) w3 of
                    (Inl e, w4) \<Rightarrow> Some (err_unlock fd (- e) b1 w4)
                  | (Inr _, w4) \<Rightarrow> open_recover K fd b1 w4)
               else open_recover K fd b1 w3))"

definition binlog_open ::
  "binlog_h \<Rightarrow> bcfg option \<Rightarrow> world \<Rightarrow> (int outcome \<times> bcfg option \<times> world) option" where
  "binlog_open K bp w =
     (case bp of
        None \<Rightarrow> Some (Ret (- EINVAL), None, w)
      | Some bcfg \<Rightarrow>
          if \<not> NDEBUG K \<and> b_fd bcfg \<noteq> - 1 then Some (AssertFail, Some bcfg, w)
          else
            (case binlog_create K bcfg w of
               (AssertFail, b1, w1) \<Rightarrow> Some (AssertFail, Some b1, w1)
             | (SegFault, b1, w1) \<Rightarrow> Some (SegFault, Some b1, w1)
             | (Ret err, b1, w1) \<Rightarrow>
                 if err \<noteq> 0 \<and> err \<noteq> - EEXIST then Some (Ret err, Some b1, w1)
                 else open_existing K b1 w1))"

text \<open>
  \<open>binlog_append\<close>, from its end to its start: the sync and the bump of the cursor, the
  write of the data, the write of the metadata, the construction and the write of the
  record header, and the function itself. The field \<open>meta_size\<close> of the local record
  header is never assigned: it holds the indeterminate value of the world. The field
  \<open>size\<close> takes the sum of the two signed sizes, converted to the unsigned field.
\<close>

definition append_sync :: "binlog_h \<Rightarrow> bcfg \<Rightarrow> int \<Rightarrow> world \<Rightarrow> int outcome \<times> bcfg option \<times> world" where
  "append_sync K b1 record_len w =
     (if \<not> (b_flags b1 AND FLAGS_CFG_SYNC K \<noteq> 0) then
        (case binlog_datasync (b_fd b1) w of
           (err, w1) \<Rightarrow>
             if err \<noteq> 0 then (Ret err, Some b1, w1)
             else (Ret 0, Some (b1\<lparr>b_position := b_position b1 + record_len\<rparr>), w1))
      else (Ret 0, Some (b1\<lparr>b_position := b_position b1 + record_len\<rparr>), w))"

definition append_data ::
  "binlog_h \<Rightarrow> ctl \<Rightarrow> bcfg \<Rightarrow> int \<Rightarrow> int \<Rightarrow> world \<Rightarrow> int outcome \<times> bcfg option \<times> world" where
  "append_data K bctl b1 record_len offset w =
     (if c_size bctl > 0 then
        let offset1 = offset + c_meta_size bctl in
        (case sys_pwrite (b_fd b1) (c_data bctl) (nat (c_size bctl)) offset1 w of
           (Inl e, w1) \<Rightarrow> (Ret (- e), Some b1, w1)
         | (Inr n, w1) \<Rightarrow>
             if int n \<noteq> c_size bctl then (Ret (- EINTR), Some b1, w1)
             else append_sync K b1 record_len w1)
      else append_sync K b1 record_len w)"

definition append_meta ::
  "binlog_h \<Rightarrow> ctl \<Rightarrow> bcfg \<Rightarrow> int \<Rightarrow> int \<Rightarrow> world \<Rightarrow> int outcome \<times> bcfg option \<times> world" where
  "append_meta K bctl b1 record_len offset w =
     (if c_meta_size bctl > 0 then
        let offset1 = offset + int (sizeof_rhdr K) in
        (case sys_pwrite (b_fd b1) (c_meta bctl) (nat (c_meta_size bctl)) offset1 w of
           (Inl e, w1) \<Rightarrow> (Ret (- e), Some b1, w1)
         | (Inr n, w1) \<Rightarrow>
             if int n \<noteq> c_meta_size bctl then (Ret (- EINTR), Some b1, w1)
             else append_data K bctl b1 record_len offset1 w1)
      else append_data K bctl b1 record_len offset w)"

definition append_hdr ::
  "binlog_h \<Rightarrow> ctl \<Rightarrow> bcfg \<Rightarrow> int \<Rightarrow> world \<Rightarrow> int outcome \<times> bcfg option \<times> world" where
  "append_hdr K bctl b1 record_len w =
     (case c_key bctl of
        None \<Rightarrow> (SegFault, Some b1, w)
      | Some k \<Rightarrow>
          let r = \<lparr>rh_type = c_type bctl, rh_size = to_u64 (c_meta_size bctl + c_size bctl),
                   rh_meta_size = indeterminate w, rh_flags = c_flags bctl, rh_key = k\<rparr> in
          if \<not> NDEBUG K \<and> binlog_verify_record_hdr K r \<noteq> 0 then (AssertFail, Some b1, w)
          else
            let offset = b_position b1 in
            (case sys_pwrite (b_fd b1) (Some (repr_rhdr K r)) (sizeof_rhdr K) offset w of
               (Inl e, w1) \<Rightarrow> (Ret (- e), Some b1, w1)
             | (Inr n, w1) \<Rightarrow>
                 if n \<noteq> sizeof_rhdr K then (Ret (- EINTR), Some b1, w1)
                 else append_meta K bctl b1 record_len offset w1))"

definition binlog_append ::
  "binlog_h \<Rightarrow> ctl option \<Rightarrow> world \<Rightarrow> int outcome \<times> bcfg option \<times> world" where
  "binlog_append K bp w =
     (case bp of
        None \<Rightarrow> (Ret (- EINVAL), None, w)
      | Some bctl \<Rightarrow>
          (case c_cfg bctl of
             None \<Rightarrow> (Ret (- EINVAL), None, w)
           | Some bcfg \<Rightarrow>
               if \<not> NDEBUG K \<and> (b_fd bcfg < 0 \<or> b_position bcfg \<le> 0) then (AssertFail, Some bcfg, w)
               else
                 let record_len = int (sizeof_rhdr K) + c_meta_size bctl + c_size bctl in
                 if b_position bcfg + record_len \<ge> b_prealloc_size bcfg then
                   (case binlog_extend K bcfg (b_fd bcfg) w of
                      (err, b1, w1) \<Rightarrow>
                        if err \<noteq> 0 then (Ret err, Some b1, w1)
                        else append_hdr K bctl b1 record_len w1)
                 else append_hdr K bctl bcfg record_len w))"

text \<open>
  \<open>binlog_read\<close>, from its end to its start: the copy of the header and of the payload's
  two views into the descriptor, the read of the payload, and the function itself.
\<close>

definition read_fill :: "ctl \<Rightarrow> rhdr \<Rightarrow> byte list option \<Rightarrow> world \<Rightarrow> int outcome \<times> ctl option \<times> world" where
  "read_fill bctl r dat w =
     (let c1 = bctl\<lparr>c_type := rh_type r, c_flags := rh_flags r\<rparr> in
      case c_key c1 of
        None \<Rightarrow> (SegFault, Some c1, w)
      | Some _ \<Rightarrow>
          let c2 = c1\<lparr>c_key := Some (rh_key r), c_meta_size := int (rh_meta_size r)\<rparr>;
              c3 = (if c_meta_size c2 > 0 then c2\<lparr>c_meta := dat\<rparr> else c2);
              c4 = c3\<lparr>c_size := int (rh_size r) - int (rh_meta_size r)\<rparr>;
              c5 = (if c_size c4 > 0
                    then c4\<lparr>c_data := map_option (drop (nat (c_meta_size c4))) dat\<rparr> else c4)
          in (Ret 0, Some c5, w))"

definition read_payload ::
  "binlog_h \<Rightarrow> ctl \<Rightarrow> bcfg \<Rightarrow> rhdr \<Rightarrow> int \<Rightarrow> world \<Rightarrow> int outcome \<times> ctl option \<times> world" where
  "read_payload K bctl bcfg r offset w =
     (if rh_size r \<noteq> 0 then
        (case binlog_read_record_data K bcfg (offset + int (sizeof_rhdr K)) (int (rh_size r)) w of
           (Ret None, w1) \<Rightarrow> (Ret (- EIO), Some bctl, w1)
         | (Ret (Some buf), w1) \<Rightarrow> read_fill bctl r (Some buf) w1
         | (AssertFail, w1) \<Rightarrow> (AssertFail, Some bctl, w1)
         | (SegFault, w1) \<Rightarrow> (SegFault, Some bctl, w1))
      else read_fill bctl r None w)"

definition binlog_read ::
  "binlog_h \<Rightarrow> ctl option \<Rightarrow> int \<Rightarrow> world \<Rightarrow> int outcome \<times> ctl option \<times> world" where
  "binlog_read K bp offset w =
     (case bp of
        None \<Rightarrow> (Ret (- EINVAL), None, w)
      | Some bctl \<Rightarrow>
          (case c_cfg bctl of
             None \<Rightarrow> (Ret (- EINVAL), Some bctl, w)
           | Some bcfg \<Rightarrow>
               if \<not> NDEBUG K \<and> \<not> offset \<ge> int (sizeof_dhdr K) then (AssertFail, Some bctl, w)
               else
                 (case binlog_read_record_hdr K bcfg offset w of
                    (Ret err, Some r, w1) \<Rightarrow>
                      if err \<noteq> 0 then (Ret err, Some bctl, w1)
                      else read_payload K bctl bcfg r offset w1
                  | (Ret err, None, w1) \<Rightarrow> (Ret err, Some bctl, w1)
                  | (AssertFail, _, w1) \<Rightarrow> (AssertFail, Some bctl, w1)
                  | (SegFault, _, w1) \<Rightarrow> (SegFault, Some bctl, w1))))"

text \<open>
  \<open>binlog_apply\<close>. The handler takes the descriptor and its own state \<open>'u\<close> and returns
  its result, the descriptor as it left it and its new state. The result holds the
  descriptors the handler was called with, in order. The loop is a partial function.
\<close>

definition zero_ctl :: ctl where
  "zero_ctl = \<lparr>c_cfg = None, c_type = 0, c_key = None, c_flags = 0, c_meta = None,
               c_meta_size = 0, c_data = None, c_size = 0\<rparr>"

partial_function (option) apply_loop ::
  "binlog_h \<Rightarrow> bcfg \<Rightarrow> (ctl \<Rightarrow> 'u \<Rightarrow> int \<times> ctl \<times> 'u) \<Rightarrow> int \<Rightarrow> 'u \<Rightarrow> ctl list \<Rightarrow> world
     \<Rightarrow> (int outcome \<times> 'u \<times> ctl list \<times> world) option" where
  "apply_loop K bcfg func offset u seen w =
     (if offset < b_position bcfg then
        (case binlog_read K (Some (zero_ctl\<lparr>c_cfg := Some bcfg\<rparr>)) offset w of
           (Ret err, Some bctl, w1) \<Rightarrow>
             if err \<noteq> 0 then Some (Ret err, u, seen, w1)
             else
               (case func bctl u of
                  (err2, bctl2, u1) \<Rightarrow>
                    if err2 \<noteq> 0 then Some (Ret err2, u1, seen @ [bctl], w1)
                    else apply_loop K bcfg func (offset + (c_size bctl2 + int (sizeof_rhdr K)))
                           u1 (seen @ [bctl]) w1)
         | (Ret err, None, w1) \<Rightarrow> Some (Ret err, u, seen, w1)
         | (AssertFail, _, w1) \<Rightarrow> Some (AssertFail, u, seen, w1)
         | (SegFault, _, w1) \<Rightarrow> Some (SegFault, u, seen, w1))
      else Some (Ret 0, u, seen, w))"

declare apply_loop.simps [code]

definition binlog_apply ::
  "binlog_h \<Rightarrow> bcfg option \<Rightarrow> (ctl \<Rightarrow> 'u \<Rightarrow> int \<times> ctl \<times> 'u) option \<Rightarrow> 'u \<Rightarrow> world
     \<Rightarrow> (int outcome \<times> 'u \<times> ctl list \<times> world) option" where
  "binlog_apply K bp fp u w =
     (case bp of
        None \<Rightarrow> Some (Ret (- EINVAL), u, [], w)
      | Some bcfg \<Rightarrow>
          (case fp of
             None \<Rightarrow> Some (Ret (- EINVAL), u, [], w)
           | Some func \<Rightarrow>
               if \<not> NDEBUG K \<and> \<not> b_position bcfg \<le> int (sizeof_dhdr K)
               then Some (AssertFail, u, [], w)
               else apply_loop K bcfg func (int (sizeof_dhdr K)) u [] w))"

definition binlog_close :: "binlog_h \<Rightarrow> bcfg option \<Rightarrow> world \<Rightarrow> int outcome \<times> world" where
  "binlog_close K bp w =
     (case bp of
        None \<Rightarrow> (Ret (- EINVAL), w)
      | Some bcfg \<Rightarrow>
          if b_fd bcfg < 0 then (Ret (- EINVAL), w)
          else
            (case binlog_hdr_write K (b_fd bcfg) (b_disk_hdr bcfg) w of
               (AssertFail, w1) \<Rightarrow> (AssertFail, w1)
             | (SegFault, w1) \<Rightarrow> (SegFault, w1)
             | (Ret err, w1) \<Rightarrow>
                 if err \<noteq> 0 then (Ret err, w1)
                 else
                   (case binlog_sync (b_fd bcfg) w1 of
                      (err1, w2) \<Rightarrow>
                        if err1 \<noteq> 0 then (Ret err1, w2)
                        else
                          (case sys_flock (b_fd bcfg) False w2 of
                             (Inl e, w3) \<Rightarrow> (Ret (- e), w3)
                           | (Inr _, w3) \<Rightarrow>
                               (case eblob_pagecache_hint (b_fd bcfg) w3 of
                                  (_, w4) \<Rightarrow>
                                    (case sys_close (b_fd bcfg) w4 of
                                       (Inl e, w5) \<Rightarrow> (Ret (- e), w5)
                                     | (Inr _, w5) \<Rightarrow> (Ret 0, w5)))))))"

text \<open>\<open>binlog_destroy\<close> frees the handle: \<open>None\<close> is what is left of it.\<close>

definition binlog_destroy :: "bcfg option \<Rightarrow> int \<times> bcfg option" where
  "binlog_destroy bp = (case bp of None \<Rightarrow> (- EINVAL, None) | Some _ \<Rightarrow> (0, None))"

subsection \<open>Sequences of appends and the recovery scan as the specification words it\<close>

text \<open>
  \<open>append_all\<close> appends the records of a list in order to the handle, each call on the
  handle the call before left, and gives the last handle when every call returned 0.
\<close>

fun append_all :: "binlog_h \<Rightarrow> bcfg \<Rightarrow> ctl list \<Rightarrow> world \<Rightarrow> (bcfg \<times> world) option" where
  "append_all K bcfg [] w = Some (bcfg, w)"
| "append_all K bcfg (r # rs) w =
     (case binlog_append K (Some (r\<lparr>c_cfg := Some bcfg\<rparr>)) w of
        (Ret err, Some b1, w1) \<Rightarrow> if err = 0 then append_all K b1 rs w1 else None
      | _ \<Rightarrow> None)"

text \<open>
  The recovery scan in the words of the specification. Reading and verifying a record
  header at an offset succeeds when \<open>pread\<close> delivers all the bytes of a record header
  from that offset and the header they hold has a type strictly between the two
  sentinels and no flag; \<open>record_header_at\<close> gives that header, or \<open>None\<close>, and the world
  after the read. From an offset, a header that reads and verifies moves the scan by
  the size of a record header plus the header's size field, in exact arithmetic; the
  scan ends at the first offset where the read or the check fails.
\<close>

definition record_header_at :: "binlog_h \<Rightarrow> bcfg \<Rightarrow> int \<Rightarrow> world \<Rightarrow> rhdr option \<times> world" where
  "record_header_at K bcfg lsn w =
     (case sys_pread (b_fd bcfg) (sizeof_rhdr K) lsn w of
        (Inl e, w1) \<Rightarrow> (None, w1)
      | (Inr bs, w1) \<Rightarrow>
          if length bs = sizeof_rhdr K
             \<and> TYPE_FIRST K < rh_type (value_rhdr K bs) \<and> rh_type (value_rhdr K bs) < TYPE_LAST K
             \<and> rh_flags (value_rhdr K bs) = 0
          then (Some (value_rhdr K bs), w1)
          else (None, w1))"

inductive recovery_scan :: "binlog_h \<Rightarrow> bcfg \<Rightarrow> int \<Rightarrow> world \<Rightarrow> int \<Rightarrow> world \<Rightarrow> bool" where
  scan_stop:
    "record_header_at K bcfg lsn w = (None, w1) \<Longrightarrow> recovery_scan K bcfg lsn w lsn w1"
| scan_step:
    "record_header_at K bcfg lsn w = (Some r, w1)
       \<Longrightarrow> recovery_scan K bcfg (lsn + int (sizeof_rhdr K) + int (rh_size r)) w1 lsn' w'
       \<Longrightarrow> recovery_scan K bcfg lsn w lsn' w'"

code_pred recovery_scan .

subsection \<open>An instance of binlog.h\<close>

text \<open>
  For evaluating the functions on concrete logs: a packed little-endian layout with an
  8-byte magic, a 32-bit version, 64-bit flags and sizes, a 16-bit record type and a key
  of \<open>id_size\<close> bytes; three flag bits; four record types between the sentinels 0 and
  5. The theorems below hold for every instance.
\<close>

definition le16 :: "nat \<Rightarrow> byte list" where
  "le16 v = [word_of_nat v, word_of_nat (v div 256)]"

definition le32 :: "nat \<Rightarrow> byte list" where
  "le32 v = le16 v @ le16 (v div 65536)"

definition le64 :: "nat \<Rightarrow> byte list" where
  "le64 v = le32 v @ le32 (v div 4294967296)"

fun le_value :: "byte list \<Rightarrow> nat" where
  "le_value [] = 0"
| "le_value (b # bs) = unat b + 256 * le_value bs"

definition pad :: "nat \<Rightarrow> byte list \<Rightarrow> byte list" where
  "pad n bs = take n (bs @ replicate (n - length bs) 0)"

definition packed_h :: "nat \<Rightarrow> bool \<Rightarrow> binlog_h" where
  "packed_h id_size nd =
    \<lparr>BINLOG_MAGIC = [0x13, 0x37, 0xb3, 0x3f], BINLOG_VERSION = 1,
     FLAGS_CFG_SYNC = 1, FLAGS_CFG_PREALLOC = 2, FLAGS_CFG_TRUNCATE = 4, FLAGS_CFG_ALL = 7,
     TYPE_FIRST = 0, TYPE_LAST = 5, DEFAULTS_FLAGS = 2, DEFAULTS_PREALLOC_STEP = 64,
     PATH_MAX = 4096, sizeof_dhdr = 20, sizeof_rhdr = 26 + id_size,
     repr_dhdr = (\<lambda>d. pad 8 (dh_magic d) @ le32 (unat (dh_version d)) @ le64 (unat (dh_flags d))),
     value_dhdr = (\<lambda>bs. \<lparr>dh_magic = take 8 bs,
                         dh_version = word_of_nat (le_value (take 4 (drop 8 bs))),
                         dh_flags = word_of_nat (le_value (take 8 (drop 12 bs)))\<rparr>),
     repr_rhdr = (\<lambda>r. le16 (nat (rh_type r)) @ le64 (rh_size r) @ le64 (rh_meta_size r)
                       @ le64 (unat (rh_flags r)) @ pad id_size (rh_key r)),
     value_rhdr = (\<lambda>bs. \<lparr>rh_type = int (le_value (take 2 bs)),
                         rh_size = le_value (take 8 (drop 2 bs)),
                         rh_meta_size = le_value (take 8 (drop 10 bs)),
                         rh_flags = word_of_nat (le_value (take 8 (drop 18 bs))),
                         rh_key = take id_size (drop 26 bs)\<rparr>),
     NDEBUG = nd\<rparr>"

text \<open>
  A process with its three standard descriptors and no log file yet, and a handle as
  \<open>binlog_init\<close> leaves it, without preallocation.
\<close>

definition fresh_world :: world where
  "fresh_world = \<lparr>disk = None, fds = [0, 1, 2], lock_owner = None, script = [], calls = [],
                  indeterminate = 0\<rparr>"

definition fresh_handle :: bcfg where
  "fresh_handle = \<lparr>b_flags = 0, b_prealloc_size = 0, b_prealloc_step = 64,
                   b_path = Some ''log'', b_fd = - 1, b_disk_hdr = None, b_position = 0\<rparr>"

text \<open>
  The handle and the world after \<open>binlog_open\<close> on the fresh handle in the fresh world:
  the file holds the 20 bytes of the disk header, descriptor 3 is open and locked, the
  cursor stands at 20.
\<close>

definition open_handle :: bcfg where
  "open_handle = \<lparr>b_flags = 0, b_prealloc_size = 20, b_prealloc_step = 64,
                  b_path = Some ''log'', b_fd = 3,
                  b_disk_hdr = Some \<lparr>dh_magic = [0x13, 0x37, 0xb3, 0x3f, 0, 0, 0, 0],
                                      dh_version = 1, dh_flags = 0\<rparr>,
                  b_position = 20\<rparr>"

definition open_world :: world where
  "open_world =
     \<lparr>disk = Some [0x13, 0x37, 0xb3, 0x3f, 0, 0, 0, 0, 1, 0, 0, 0, 0, 0, 0, 0, 0, 0, 0, 0],
      fds = [3, 0, 1, 2], lock_owner = Some 3, script = [],
      calls = [Open_creat_excl,
               Pwrite 3 [0x13, 0x37, 0xb3, 0x3f, 0, 0, 0, 0, 1, 0, 0, 0, 0, 0, 0, 0, 0, 0, 0, 0] 0,
               Fdatasync 3, Close 3, Open_rdwr False, Flock 3 True, Pagecache_hint 3,
               Fstat 3, Malloc 20, Pread 3 20 0, Pread 3 28 20],
      indeterminate = 0\<rparr>"

text \<open>
  Two records: type 1 with key \<open>[7, 9]\<close>, metadata \<open>m1\<close> and data \<open>d1\<close>; type 2 with
  key \<open>[8, 8]\<close>, no metadata and data \<open>d2\<close>. A handler that counts its calls.
\<close>

definition rec_md :: ctl where
  "rec_md = \<lparr>c_cfg = None, c_type = 1, c_key = Some [7, 9], c_flags = 0,
             c_meta = Some [0x6d, 0x31], c_meta_size = 2, c_data = Some [0x64, 0x31], c_size = 2\<rparr>"

definition rec_d :: ctl where
  "rec_d = \<lparr>c_cfg = None, c_type = 2, c_key = Some [8, 8], c_flags = 0,
            c_meta = None, c_meta_size = 0, c_data = Some [0x64, 0x32], c_size = 2\<rparr>"

definition counting :: "ctl \<Rightarrow> nat \<Rightarrow> int \<times> ctl \<times> nat" where
  "counting c u = (0, c, Suc u)"

text \<open>
  The handle and the world after the record with metadata was appended to the open
  log: the record header at 20, the metadata at 48, the data at 50, the cursor at 52.
\<close>

definition logged_handle :: bcfg where
  "logged_handle = open_handle\<lparr>b_position := 52\<rparr>"

definition logged_world :: world where
  "logged_world = open_world
     \<lparr>disk := Some [0x13, 0x37, 0xb3, 0x3f, 0, 0, 0, 0, 1, 0, 0, 0, 0, 0, 0, 0, 0, 0, 0, 0,
                    1, 0, 4, 0, 0, 0, 0, 0, 0, 0, 0, 0, 0, 0, 0, 0, 0, 0, 0, 0, 0, 0, 0, 0, 0, 0, 7, 9,
                    0x6d, 0x31, 0x64, 0x31],
      calls := calls open_world
        @ [Pwrite 3 [1, 0, 4, 0, 0, 0, 0, 0, 0, 0, 0, 0, 0, 0, 0, 0, 0, 0, 0, 0, 0, 0, 0, 0, 0, 0, 7, 9] 20,
           Pwrite 3 [0x6d, 0x31] 48, Pwrite 3 [0x64, 0x31] 50, Fdatasync 3]\<rparr>"

text \<open>
  Two logs that no append wrote: the disk header, then one record header of type 1
  whose size field is \<open>2 ^ 64 - 1\<close> in the first and \<open>2 ^ 64 - 28\<close> in the second,
  each in the world where descriptor 3 is open on it.
\<close>

definition wrap_log :: "byte list" where
  "wrap_log = [0x13, 0x37, 0xb3, 0x3f, 0, 0, 0, 0, 1, 0, 0, 0, 0, 0, 0, 0, 0, 0, 0, 0,
               1, 0, 255, 255, 255, 255, 255, 255, 255, 255, 0, 0, 0, 0, 0, 0, 0, 0,
               0, 0, 0, 0, 0, 0, 0, 0, 0, 0]"

definition loop_log :: "byte list" where
  "loop_log = [0x13, 0x37, 0xb3, 0x3f, 0, 0, 0, 0, 1, 0, 0, 0, 0, 0, 0, 0, 0, 0, 0, 0,
               1, 0, 228, 255, 255, 255, 255, 255, 255, 255, 0, 0, 0, 0, 0, 0, 0, 0,
               0, 0, 0, 0, 0, 0, 0, 0, 0, 0]"

definition wrap_world :: world where
  "wrap_world = open_world\<lparr>disk := Some wrap_log\<rparr>"

definition loop_world :: world where
  "loop_world = open_world\<lparr>disk := Some loop_log\<rparr>"

section \<open>Properties\<close>

lemmas errno_defs = EINTR_def EIO_def EBADF_def EWOULDBLOCK_def ENOMEM_def EEXIST_def EINVAL_def
  ENOENT_def EFAULT_def ENOTSUP_def

lemmas sys_defs = next_fault_def enter_def is_open_def contents_def lowest_free_def put_bytes_def
  resize_def sys_open_creat_excl_def sys_open_rdwr_def sys_close_def sys_flock_def
  sys_ftruncate_def sys_fstat_def sys_pread_def sys_pwrite_def sys_malloc_def binlog_datasync_def
  binlog_sync_def binlog_allocate_def eblob_pagecache_hint_def

lemmas binlog_defs = to_off_t_def to_u64_def cstr_def binlog_verify_hdr_def binlog_verify_record_hdr_def binlog_extend_def
  binlog_hdr_write_def binlog_hdr_read_def create_close_def binlog_create_def
  binlog_read_record_hdr_def binlog_read_record_data_def binlog_get_next_lsn_def binlog_init_def
  err_close_def err_unlock_def open_recover_def open_existing_def binlog_open_def append_sync_def
  append_data_def append_meta_def append_hdr_def binlog_append_def read_fill_def read_payload_def
  binlog_read_def zero_ctl_def binlog_apply_def binlog_close_def

lemmas inst_defs = packed_h_def pad_def le16_def le32_def le64_def fresh_world_def fresh_handle_def
  open_handle_def open_world_def rec_md_def rec_d_def counting_def
  logged_handle_def logged_world_def wrap_log_def loop_log_def wrap_world_def loop_world_def

text \<open>Unfolding a block of zeros of a given length, for evaluation.\<close>

lemma zeros_unfold: "replicate (numeral k) (0 :: byte) = 0 # replicate (numeral k - 1) 0"
  by (simp add: numeral_eq_Suc)

lemmas run_defs = binlog_defs sys_defs errno_defs inst_defs Let_def next_lsn_loop.simps
  apply_loop.simps zeros_unfold

subsection \<open>A run of the instance\<close>

lemma open_fresh:
  "binlog_open (packed_h 2 False) (Some fresh_handle) fresh_world
     = Some (Ret 0, Some open_handle, open_world)"
  by (simp add: run_defs)

lemma append_md:
  "binlog_append (packed_h 2 False) (Some (rec_md\<lparr>c_cfg := Some open_handle\<rparr>)) open_world
     = (Ret 0, Some logged_handle, logged_world)"
  by (simp add: run_defs)

subsection \<open>System calls\<close>

text \<open>A failing call reports a positive error number and a read leaves the file alone.\<close>

lemma next_fault_Fail_pos: "next_fault w = Fail e \<Longrightarrow> 0 < e"
  by (auto simp: next_fault_def split: list.splits fault.splits if_splits)

lemma sys_pwrite_errno: "sys_pwrite fd bp n off w = (Inl e, w') \<Longrightarrow> 0 < e"
  by (auto simp: sys_pwrite_def Let_def errno_defs dest: next_fault_Fail_pos
      split: fault.splits if_splits option.splits)

lemma sys_pread_errno: "sys_pread fd n off w = (Inl e, w') \<Longrightarrow> 0 < e"
  by (auto simp: sys_pread_def Let_def errno_defs dest: next_fault_Fail_pos
      split: fault.splits if_splits)

lemma contents_enter: "contents (enter c w) = contents w"
  by (simp add: contents_def enter_def)

lemma sys_fstat_errno: "sys_fstat fd w = (Inl e, w') \<Longrightarrow> 0 < e"
  by (auto simp: sys_fstat_def Let_def errno_defs dest: next_fault_Fail_pos
      split: fault.splits if_splits)

lemma sys_flock_errno: "sys_flock fd ex w = (Inl e, w') \<Longrightarrow> 0 < e"
  by (auto simp: sys_flock_def Let_def errno_defs dest: next_fault_Fail_pos
      split: fault.splits if_splits)

lemma sys_ftruncate_errno: "sys_ftruncate fd n w = (Inl e, w') \<Longrightarrow> 0 < e"
  by (auto simp: sys_ftruncate_def Let_def errno_defs dest: next_fault_Fail_pos
      split: fault.splits if_splits)

lemma sys_open_rdwr_errno: "sys_open_rdwr p s w = (Inl e, w') \<Longrightarrow> 0 < e"
  by (auto simp: sys_open_rdwr_def Let_def errno_defs dest: next_fault_Fail_pos
      split: fault.splits if_splits)

lemma sys_open_rdwr_fd: "sys_open_rdwr p s w = (Inr fd, w') \<Longrightarrow> 0 \<le> fd"
  by (auto simp: sys_open_rdwr_def Let_def split: fault.splits if_splits)

lemma err_close_ret: "err_close fd err b w = (r, bo, w') \<Longrightarrow> r = Ret err \<and> bo = Some b"
  by (auto simp: err_close_def split: prod.splits)

lemma err_unlock_ret: "err_unlock fd err b w = (r, bo, w') \<Longrightarrow> r = Ret err \<and> bo = Some b"
  by (auto simp: err_unlock_def dest: err_close_ret split: prod.splits)

subsection \<open>The check of the disk header\<close>

text \<open>
  C7, as the code has it. \<open>binlog_verify_hdr\<close> returns 0 exactly for a header whose
  magic compares equal, whose version is the current one and whose flags lie within
  the recognised set; it returns \<open>-ENOTSUP\<close> exactly when the magic compares equal and
  the version differs; it returns \<open>-EINVAL\<close> exactly when the magic differs, or magic
  and version are right and a flag outside the set is on. The checks run in this order,
  and a wrong magic and a wrong flag give the same error number.
\<close>

theorem verify_hdr_result:
  "(binlog_verify_hdr K d = 0 \<longleftrightarrow>
      cstr (dh_magic d) = cstr (BINLOG_MAGIC K) \<and> dh_version d = BINLOG_VERSION K
      \<and> dh_flags d AND NOT (FLAGS_CFG_ALL K) = 0)
   \<and> (binlog_verify_hdr K d = - ENOTSUP \<longleftrightarrow>
      cstr (dh_magic d) = cstr (BINLOG_MAGIC K) \<and> dh_version d \<noteq> BINLOG_VERSION K)
   \<and> (binlog_verify_hdr K d = - EINVAL \<longleftrightarrow>
      (cstr (dh_magic d) = cstr (BINLOG_MAGIC K) \<and> dh_version d = BINLOG_VERSION K
         \<and> dh_flags d AND NOT (FLAGS_CFG_ALL K) \<noteq> 0)
      \<or> cstr (dh_magic d) \<noteq> cstr (BINLOG_MAGIC K))"
  by (auto simp: binlog_verify_hdr_def errno_defs)

text \<open>
  C7 as stated fails: a header with a wrong magic and a header with an unknown flag get
  the same result, and a header with a wrong magic and a wrong version does not get the
  version error.
\<close>

theorem verify_hdr_kinds_counterexample:
  "binlog_verify_hdr (packed_h 2 False) \<lparr>dh_magic = [0x58], dh_version = 1, dh_flags = 0\<rparr>
     = binlog_verify_hdr (packed_h 2 False)
         \<lparr>dh_magic = [0x13, 0x37, 0xb3, 0x3f], dh_version = 1, dh_flags = 8\<rparr>
   \<and> binlog_verify_hdr (packed_h 2 False) \<lparr>dh_magic = [0x58], dh_version = 2, dh_flags = 0\<rparr>
     \<noteq> - ENOTSUP"
  by (simp add: binlog_verify_hdr_def cstr_def packed_h_def errno_defs)

subsection \<open>Opening a handle that is open\<close>

text \<open>
  C6, as the code has it. With assertions compiled in, \<open>binlog_open\<close> on a handle whose
  descriptor is not -1 stops at its assertion before any system call: nothing is
  returned and the world is unchanged.
\<close>

theorem open_again_asserts:
  "\<not> NDEBUG K \<Longrightarrow> b_fd bcfg \<noteq> - 1
     \<Longrightarrow> binlog_open K (Some bcfg) w = Some (AssertFail, Some bcfg, w)"
  by (simp add: binlog_open_def)

theorem open_again_asserts_witness:
  "\<not> NDEBUG (packed_h 2 False) \<and> b_fd open_handle \<noteq> - 1
   \<and> binlog_open (packed_h 2 False) (Some open_handle) open_world
       = Some (AssertFail, Some open_handle, open_world)"
  using open_again_asserts [of "packed_h 2 False" open_handle open_world]
  by (simp add: packed_h_def open_handle_def)

text \<open>
  C6 as stated fails: on the open handle no error is returned where assertions are
  compiled in, and where they are compiled out the call creates, opens, locks and
  closes before it returns the error of the lock.
\<close>

theorem open_again_counterexample:
  "binlog_open (packed_h 2 False) (Some open_handle) open_world
     = Some (AssertFail, Some open_handle, open_world)
   \<and> binlog_open (packed_h 2 True) (Some open_handle) open_world
     = Some (Ret (- EWOULDBLOCK), Some open_handle,
             open_world\<lparr>calls := calls open_world
                @ [Open_creat_excl, Open_rdwr False, Flock 4 True, Close 4]\<rparr>)"
  by (simp add: run_defs)

subsection \<open>A failing open\<close>

text \<open>
  Once \<open>binlog_open\<close> has stored the descriptor in the handle, every error return
  (after the stat or the header read failed) leaves it there.
\<close>

lemma open_recover_failure_fd:
  assumes "open_recover K fd b w = Some (Ret e, bo, w2)" and "e \<noteq> 0"
  shows "\<exists>b'. bo = Some b' \<and> b_fd b' = fd"
  using assms
  by (auto simp: open_recover_def Let_def
      dest!: err_unlock_ret
      split: prod.splits sum.splits outcome.splits option.splits if_splits)

text \<open>
  C5, at a log file whose header does not verify (20 zero bytes). \<open>binlog_open\<close>
  unlocks and closes descriptor 3 and returns \<open>-EINVAL\<close>, and the handle's descriptor
  field is 3, not -1: the claim's last part fails there.
\<close>

theorem open_bad_header_leaves_fd:
  "binlog_open (packed_h 2 False) (Some fresh_handle) (fresh_world\<lparr>disk := Some (replicate 20 0)\<rparr>)
     = Some (Ret (- EINVAL),
             Some (fresh_handle\<lparr>b_fd := 3, b_prealloc_size := 20\<rparr>),
             fresh_world\<lparr>disk := Some (replicate 20 0),
                calls := [Open_creat_excl, Open_rdwr False, Flock 3 True, Pagecache_hint 3, Fstat 3,
                          Malloc 20, Pread 3 20 0, Flock 3 False, Close 3]\<rparr>)"
  by (simp add: run_defs)

subsection \<open>The recovery scan\<close>

text \<open>
  What \<open>binlog_read_record_hdr\<close> returns, in terms of the header that reads and verifies
  at the offset, when its assertions hold.
\<close>

lemma header_at_read_Some:
  assumes "record_header_at K bcfg lsn w = (Some r, w1)" and "0 \<le> b_fd bcfg" and "0 < lsn"
  shows "binlog_read_record_hdr K bcfg lsn w = (Ret 0, Some r, w1)"
  using assms
  by (auto simp: record_header_at_def binlog_read_record_hdr_def binlog_verify_record_hdr_def
      Let_def split: prod.splits sum.splits if_splits)

lemma header_at_read_None:
  assumes "record_header_at K bcfg lsn w = (None, w1)" and "0 \<le> b_fd bcfg" and "0 < lsn"
  shows "\<exists>err ro. binlog_read_record_hdr K bcfg lsn w = (Ret err, ro, w1) \<and> err \<noteq> 0"
  using assms
  by (auto simp: record_header_at_def binlog_read_record_hdr_def binlog_verify_record_hdr_def
      Let_def errno_defs dest: sys_pread_errno split: prod.splits sum.splits if_splits)

lemma read_record_hdr_None:
  "binlog_read_record_hdr K bcfg lsn w = (Ret err, None, w1) \<Longrightarrow> err \<noteq> 0"
  by (auto simp: binlog_read_record_hdr_def Let_def errno_defs
      dest: sys_pread_errno split: if_splits prod.splits sum.splits)

lemma record_header_at_Some:
  assumes "record_header_at K bcfg lsn w = (Some r, w1)" and "0 < sizeof_rhdr K"
  shows "contents w1 = contents w \<and> 0 \<le> lsn \<and> nat lsn + sizeof_rhdr K \<le> length (contents w)"
  using assms
  by (auto simp: record_header_at_def sys_pread_def Let_def contents_enter
      split: if_splits prod.splits sum.splits fault.splits)

text \<open>The scan of the specification ends, and not below the offset it starts from.\<close>

lemma recovery_scan_ends:
  assumes "0 < sizeof_rhdr K"
  shows "\<exists>l w'. recovery_scan K bcfg lsn w l w'"
proof (induction "nat (int (length (contents w)) - lsn)" arbitrary: lsn w rule: less_induct)
  case less
  obtain ro w1 where rd: "record_header_at K bcfg lsn w = (ro, w1)"
    by (cases "record_header_at K bcfg lsn w") auto
  show ?case
  proof (cases ro)
    case None
    with rd show ?thesis by (auto intro: scan_stop)
  next
    case (Some r)
    with rd have rd1: "record_header_at K bcfg lsn w = (Some r, w1)" by simp
    from record_header_at_Some [OF rd1 assms]
    have r: "contents w1 = contents w" "0 \<le> lsn" "nat lsn + sizeof_rhdr K \<le> length (contents w)"
      by simp_all
    let ?l1 = "lsn + int (sizeof_rhdr K) + int (rh_size r)"
    have "nat (int (length (contents w1)) - ?l1) < nat (int (length (contents w)) - lsn)"
      using r assms by simp
    from less.hyps [OF this] obtain l w' where "recovery_scan K bcfg ?l1 w1 l w'" by blast
    with rd1 show ?thesis by (auto intro: scan_step)
  qed
qed

lemma recovery_scan_mono: "recovery_scan K bcfg lsn w l w' \<Longrightarrow> lsn \<le> l"
  by (induction rule: recovery_scan.induct) auto

lemma to_off_t_id: "- (2 ^ 63) \<le> x \<Longrightarrow> x < 2 ^ 63 \<Longrightarrow> to_off_t x = x"
  by (simp add: to_off_t_def)

text \<open>
  When the scan of the specification ends below \<open>2 ^ 63\<close>, no sum of the loop wraps
  and the loop returns the offset the scan ended at.
\<close>

lemma next_lsn_loop_scan:
  assumes "recovery_scan K bcfg lsn w l w'" and "0 \<le> b_fd bcfg" and "0 < lsn" and "l < 2 ^ 63"
  shows "next_lsn_loop K bcfg lsn w = Some (Ret l, w')"
  using assms
proof (induction rule: recovery_scan.induct)
  case (scan_stop K bcfg lsn w w1)
  from header_at_read_None [OF scan_stop(1) scan_stop(2) scan_stop(3)] obtain err ro
    where "binlog_read_record_hdr K bcfg lsn w = (Ret err, ro, w1)" "err \<noteq> 0" by blast
  then show ?case
    by (subst next_lsn_loop.simps) (simp split: option.splits)
next
  case (scan_step K bcfg lsn w r w1 lsn' w')
  let ?l1 = "lsn + int (sizeof_rhdr K) + int (rh_size r)"
  from recovery_scan_mono [OF scan_step(2)] scan_step(6) have "?l1 < 2 ^ 63" by simp
  moreover from scan_step(5) have "0 < ?l1" by simp
  ultimately have cv: "to_off_t (lsn + (int (rh_size r) + int (sizeof_rhdr K))) = ?l1"
    using to_off_t_id [of ?l1] by (simp add: add.commute add.left_commute)
  from header_at_read_Some [OF scan_step(1) scan_step(4) scan_step(5)]
  have "next_lsn_loop K bcfg lsn w = next_lsn_loop K bcfg ?l1 w1"
    by (subst next_lsn_loop.simps) (simp add: cv)
  with scan_step(3) [OF scan_step(4) \<open>0 < ?l1\<close> scan_step(6)] show ?case by simp
qed

text \<open>
  The calls of a \<open>binlog_open\<close> that returns 0, stage by stage: each one succeeded in
  the world the one before left, and the cursor is the offset \<open>binlog_get_next_lsn\<close>
  returned.
\<close>

lemma open_recover_success:
  assumes "open_recover K fd b1 w4 = Some (Ret 0, bo, w9)"
  shows "\<exists>h w5 st w6 dh w7 l.
           eblob_pagecache_hint fd w4 = (h, w5)
         \<and> sys_fstat fd w5 = (Inr st, w6)
         \<and> binlog_hdr_read K fd w6 = (Ret 0, dh, w7)
         \<and> binlog_get_next_lsn K (b1\<lparr>b_fd := fd, b_prealloc_size := st, b_disk_hdr := dh\<rparr>) w7
             = Some (Ret l, w9)
         \<and> bo = Some (b1\<lparr>b_fd := fd, b_prealloc_size := st, b_disk_hdr := dh, b_position := l\<rparr>)"
  using assms
  by (auto simp: open_recover_def Let_def
      dest!: err_unlock_ret dest: sys_fstat_errno
      split: prod.splits sum.splits outcome.splits option.splits if_splits)

lemma open_existing_success:
  assumes "open_existing K b1 w1 = Some (Ret 0, bo, w9)"
  shows "\<exists>fd w2 w3 w4.
           sys_open_rdwr (b_path b1) (b_flags b1 AND FLAGS_CFG_SYNC K \<noteq> 0) w1 = (Inr fd, w2)
         \<and> sys_flock fd True w2 = (Inr (), w3)
         \<and> (if b_flags b1 AND FLAGS_CFG_TRUNCATE K \<noteq> 0
            then sys_ftruncate fd (sizeof_dhdr K) w3 = (Inr (), w4) else w4 = w3)
         \<and> open_recover K fd b1 w4 = Some (Ret 0, bo, w9)"
  using assms
  by (auto simp: open_existing_def
      dest!: err_unlock_ret err_close_ret
      dest: sys_open_rdwr_errno sys_flock_errno sys_ftruncate_errno
      split: prod.splits sum.splits if_splits)

lemma binlog_open_success:
  assumes "binlog_open K (Some b0) w0 = Some (Ret 0, bo, w9)"
  shows "\<exists>e b1 w1. binlog_create K b0 w0 = (Ret e, b1, w1) \<and> (e = 0 \<or> e = - EEXIST)
           \<and> open_existing K b1 w1 = Some (Ret 0, bo, w9)"
  using assms
  by (auto simp: binlog_open_def split: prod.splits outcome.splits if_splits)

text \<open>
  On the second crafted log the loop does not return: the header at 20 verifies, the
  sum \<open>20 + (2 ^ 64 - 28) + 28\<close> wraps to 20, and the loop reads the same header again.
\<close>

lemma loop_log_step:
  assumes "disk w = Some loop_log" and "fds w = [3, 0, 1, 2]" and "script w = []"
  shows "binlog_read_record_hdr (packed_h 2 False) open_handle 20 w
           = (Ret 0, Some \<lparr>rh_type = 1, rh_size = 18446744073709551588, rh_meta_size = 0,
                            rh_flags = 0, rh_key = [0, 0]\<rparr>, enter (Pread 3 28 20) w)"
  using assms by (simp add: run_defs)

lemma loop_log_enter:
  assumes "disk w = Some loop_log" and "fds w = [3, 0, 1, 2]" and "script w = []"
  shows "disk (enter c w) = Some loop_log \<and> fds (enter c w) = [3, 0, 1, 2]
           \<and> script (enter c w) = []"
  using assms by (simp add: enter_def)

lemma loop_log_no_result:
  assumes "next_lsn_loop K bcfg lsn w = Some y"
  shows "\<not> (K = packed_h 2 False \<and> bcfg = open_handle \<and> lsn = 20
        \<and> disk w = Some loop_log \<and> fds w = [3, 0, 1, 2] \<and> script w = [])"
proof (rule next_lsn_loop.raw_induct
    [where P = "\<lambda>K bcfg lsn w y. \<not> (K = packed_h 2 False \<and> bcfg = open_handle \<and> lsn = 20
        \<and> disk w = Some loop_log \<and> fds w = [3, 0, 1, 2] \<and> script w = [])", OF _ assms],
    goal_cases)
  case (1 f K bcfg lsn w y)
  show ?case
  proof
    assume a: "K = packed_h 2 False \<and> bcfg = open_handle \<and> lsn = 20
        \<and> disk w = Some loop_log \<and> fds w = [3, 0, 1, 2] \<and> script w = []"
    then have inv: "disk w = Some loop_log" "fds w = [3, 0, 1, 2]" "script w = []" by simp_all
    have "to_off_t (20 + (int 18446744073709551588 + int (sizeof_rhdr (packed_h 2 False)))) = 20"
      by (simp add: to_off_t_def packed_h_def)
    with 1(2) a loop_log_step [OF inv]
    have "f (packed_h 2 False) open_handle 20 (enter (Pread 3 28 20) w) = Some y"
      by simp
    from 1(1) [OF this] loop_log_enter [OF inv, of "Pread 3 28 20"] show False by simp
  qed
qed

lemma loop_log_never_returns:
  "binlog_get_next_lsn (packed_h 2 False) open_handle loop_world = None"
proof (cases "binlog_get_next_lsn (packed_h 2 False) open_handle loop_world")
  case None
  then show ?thesis .
next
  case (Some y)
  then have "next_lsn_loop (packed_h 2 False) open_handle 20 loop_world = Some y"
    by (simp add: binlog_get_next_lsn_def packed_h_def)
  from loop_log_no_result [OF this] show ?thesis by (simp add: loop_world_def open_world_def)
qed

text \<open>
  C4 as stated fails. On the first crafted log the scan of the specification moves from
  20 by \<open>28 + (2 ^ 64 - 1)\<close> and ends at \<open>2 ^ 64 + 47\<close>; \<open>binlog_get_next_lsn\<close>
  computes the sum modulo \<open>2 ^ 64\<close>, reads at 47 and returns 47, and \<open>binlog_open\<close>
  recovers the cursor 47. On the second crafted log \<open>binlog_get_next_lsn\<close> does not
  return.
\<close>

theorem recovery_scan_wraps_counterexample:
  "recovery_scan (packed_h 2 False) open_handle 20 wrap_world (2 ^ 64 + 47)
       (wrap_world\<lparr>calls := calls wrap_world @ [Pread 3 28 20, Pread 3 28 (2 ^ 64 + 47)]\<rparr>)
   \<and> binlog_get_next_lsn (packed_h 2 False) open_handle wrap_world
       = Some (Ret 47, wrap_world\<lparr>calls := calls wrap_world @ [Pread 3 28 20, Pread 3 28 47]\<rparr>)
   \<and> binlog_open (packed_h 2 False) (Some fresh_handle) (fresh_world\<lparr>disk := Some wrap_log\<rparr>)
       = Some (Ret 0, Some (open_handle\<lparr>b_prealloc_size := 48, b_position := 47\<rparr>),
               fresh_world\<lparr>disk := Some wrap_log, fds := [3, 0, 1, 2], lock_owner := Some 3,
                  calls := [Open_creat_excl, Open_rdwr False, Flock 3 True, Pagecache_hint 3,
                            Fstat 3, Malloc 20, Pread 3 20 0, Pread 3 28 20, Pread 3 28 47]\<rparr>)
   \<and> binlog_get_next_lsn (packed_h 2 False) open_handle loop_world = None"
proof (intro conjI)
  let ?K = "packed_h 2 False"
  let ?r = "\<lparr>rh_type = 1, rh_size = 18446744073709551615, rh_meta_size = 0,
             rh_flags = 0, rh_key = [0, 0]\<rparr>"
  let ?w1 = "wrap_world\<lparr>calls := calls wrap_world @ [Pread 3 28 20]\<rparr>"
  let ?w2 = "wrap_world\<lparr>calls := calls wrap_world @ [Pread 3 28 20, Pread 3 28 (2 ^ 64 + 47)]\<rparr>"
  have h1: "record_header_at ?K open_handle 20 wrap_world = (Some ?r, ?w1)"
    by (simp add: record_header_at_def run_defs)
  have h2: "record_header_at ?K open_handle (20 + int (sizeof_rhdr ?K) + int (rh_size ?r)) ?w1
              = (None, ?w2)"
    by (simp add: record_header_at_def run_defs)
  have "recovery_scan ?K open_handle (20 + int (sizeof_rhdr ?K) + int (rh_size ?r)) ?w1
          (20 + int (sizeof_rhdr ?K) + int (rh_size ?r)) ?w2"
    by (rule scan_stop [OF h2])
  from scan_step [OF h1 this]
  show "recovery_scan ?K open_handle 20 wrap_world (2 ^ 64 + 47) ?w2"
    by (simp add: packed_h_def)
next
  show "binlog_get_next_lsn (packed_h 2 False) open_handle wrap_world
       = Some (Ret 47, wrap_world\<lparr>calls := calls wrap_world @ [Pread 3 28 20, Pread 3 28 47]\<rparr>)"
    by (simp add: run_defs)
next
  show "binlog_open (packed_h 2 False) (Some fresh_handle) (fresh_world\<lparr>disk := Some wrap_log\<rparr>)
       = Some (Ret 0, Some (open_handle\<lparr>b_prealloc_size := 48, b_position := 47\<rparr>),
               fresh_world\<lparr>disk := Some wrap_log, fds := [3, 0, 1, 2], lock_owner := Some 3,
                  calls := [Open_creat_excl, Open_rdwr False, Flock 3 True, Pagecache_hint 3,
                            Fstat 3, Malloc 20, Pread 3 20 0, Pread 3 28 20, Pread 3 28 47]\<rparr>)"
    by (simp add: run_defs)
next
  show "binlog_get_next_lsn (packed_h 2 False) open_handle loop_world = None"
    by (rule loop_log_never_returns)
qed

text \<open>
  C4, as the code has it. With structures of positive size, the scan of the
  specification (from the size of the disk header, each header that reads and verifies
  moves it by the size of a record header plus the header's size field, and it ends at
  the first offset where the read or the check fails) ends at some offset. Whenever it
  ends at an offset below \<open>2 ^ 63\<close>, \<open>binlog_get_next_lsn\<close> on a handle with a valid
  descriptor returns, and returns that offset, not an error, and leaves the world as
  the scan does. When \<open>binlog_open\<close> returns 0, the creation returned 0 or \<open>-EEXIST\<close>,
  then the open, the lock, the truncation if asked for, the stat and the header read
  succeeded, each in the world the call before left; the cursor of the handle is the
  offset \<open>binlog_get_next_lsn\<close> then returned on the new descriptor, which is the end of
  the scan of the specification whenever that end is below \<open>2 ^ 63\<close>.
\<close>

theorem recovery_scan_correct:
  assumes "0 < sizeof_rhdr K" and "0 < sizeof_dhdr K"
  shows "(\<exists>l w'. recovery_scan K bcfg (int (sizeof_dhdr K)) w l w')
       \<and> (0 \<le> b_fd bcfg \<and> recovery_scan K bcfg (int (sizeof_dhdr K)) w l w' \<and> l < 2 ^ 63
            \<longrightarrow> binlog_get_next_lsn K bcfg w = Some (Ret l, w'))
       \<and> (binlog_open K (Some b0) w0 = Some (Ret 0, bo, w9) \<longrightarrow>
            (\<exists>e b1 w1 fd w2 w3 w4 h w5 st w6 dh w7 c.
                binlog_create K b0 w0 = (Ret e, b1, w1) \<and> (e = 0 \<or> e = - EEXIST)
              \<and> sys_open_rdwr (b_path b1) (b_flags b1 AND FLAGS_CFG_SYNC K \<noteq> 0) w1 = (Inr fd, w2)
              \<and> sys_flock fd True w2 = (Inr (), w3)
              \<and> (if b_flags b1 AND FLAGS_CFG_TRUNCATE K \<noteq> 0
                 then sys_ftruncate fd (sizeof_dhdr K) w3 = (Inr (), w4) else w4 = w3)
              \<and> eblob_pagecache_hint fd w4 = (h, w5)
              \<and> sys_fstat fd w5 = (Inr st, w6)
              \<and> binlog_hdr_read K fd w6 = (Ret 0, dh, w7)
              \<and> binlog_get_next_lsn K (b1\<lparr>b_fd := fd, b_prealloc_size := st, b_disk_hdr := dh\<rparr>) w7
                  = Some (Ret c, w9)
              \<and> bo = Some (b1\<lparr>b_fd := fd, b_prealloc_size := st, b_disk_hdr := dh,
                              b_position := c\<rparr>)
              \<and> (\<forall>m wm. recovery_scan K (b1\<lparr>b_fd := fd, b_prealloc_size := st, b_disk_hdr := dh\<rparr>)
                            (int (sizeof_dhdr K)) w7 m wm \<and> m < 2 ^ 63
                          \<longrightarrow> c = m \<and> w9 = wm)))"
proof (intro conjI impI)
  show "\<exists>l w'. recovery_scan K bcfg (int (sizeof_dhdr K)) w l w'"
    by (rule recovery_scan_ends [OF assms(1)])
next
  assume "0 \<le> b_fd bcfg \<and> recovery_scan K bcfg (int (sizeof_dhdr K)) w l w' \<and> l < 2 ^ 63"
  with next_lsn_loop_scan [of K bcfg "int (sizeof_dhdr K)" w l w'] assms(2)
  show "binlog_get_next_lsn K bcfg w = Some (Ret l, w')"
    by (simp add: binlog_get_next_lsn_def)
next
  assume "binlog_open K (Some b0) w0 = Some (Ret 0, bo, w9)"
  from binlog_open_success [OF this] obtain e b1 w1
    where c: "binlog_create K b0 w0 = (Ret e, b1, w1)" "e = 0 \<or> e = - EEXIST"
      and "open_existing K b1 w1 = Some (Ret 0, bo, w9)" by blast
  from open_existing_success [OF this(3)] obtain fd w2 w3 w4
    where o: "sys_open_rdwr (b_path b1) (b_flags b1 AND FLAGS_CFG_SYNC K \<noteq> 0) w1 = (Inr fd, w2)"
      "sys_flock fd True w2 = (Inr (), w3)"
      "if b_flags b1 AND FLAGS_CFG_TRUNCATE K \<noteq> 0
       then sys_ftruncate fd (sizeof_dhdr K) w3 = (Inr (), w4) else w4 = w3"
      and "open_recover K fd b1 w4 = Some (Ret 0, bo, w9)" by blast
  from open_recover_success [OF this(4)] obtain h w5 st w6 dh w7 c
    where r: "eblob_pagecache_hint fd w4 = (h, w5)" "sys_fstat fd w5 = (Inr st, w6)"
      "binlog_hdr_read K fd w6 = (Ret 0, dh, w7)"
      "binlog_get_next_lsn K (b1\<lparr>b_fd := fd, b_prealloc_size := st, b_disk_hdr := dh\<rparr>) w7
         = Some (Ret c, w9)"
      "bo = Some (b1\<lparr>b_fd := fd, b_prealloc_size := st, b_disk_hdr := dh, b_position := c\<rparr>)"
    by blast
  let ?b4 = "b1\<lparr>b_fd := fd, b_prealloc_size := st, b_disk_hdr := dh\<rparr>"
  have fd: "0 \<le> b_fd ?b4" using sys_open_rdwr_fd [OF o(1)] by simp
  have u: "\<forall>m wm. recovery_scan K ?b4 (int (sizeof_dhdr K)) w7 m wm \<and> m < 2 ^ 63
             \<longrightarrow> c = m \<and> w9 = wm"
  proof (intro allI impI)
    fix m wm
    assume "recovery_scan K ?b4 (int (sizeof_dhdr K)) w7 m wm \<and> m < 2 ^ 63"
    with next_lsn_loop_scan [of K ?b4 "int (sizeof_dhdr K)" w7 m wm] fd assms(2)
    have "binlog_get_next_lsn K ?b4 w7 = Some (Ret m, wm)"
      by (simp add: binlog_get_next_lsn_def)
    with r(4) show "c = m \<and> w9 = wm" by simp
  qed
  from c o r u
  show "\<exists>e b1 w1 fd w2 w3 w4 h w5 st w6 dh w7 c.
                binlog_create K b0 w0 = (Ret e, b1, w1) \<and> (e = 0 \<or> e = - EEXIST)
              \<and> sys_open_rdwr (b_path b1) (b_flags b1 AND FLAGS_CFG_SYNC K \<noteq> 0) w1 = (Inr fd, w2)
              \<and> sys_flock fd True w2 = (Inr (), w3)
              \<and> (if b_flags b1 AND FLAGS_CFG_TRUNCATE K \<noteq> 0
                 then sys_ftruncate fd (sizeof_dhdr K) w3 = (Inr (), w4) else w4 = w3)
              \<and> eblob_pagecache_hint fd w4 = (h, w5)
              \<and> sys_fstat fd w5 = (Inr st, w6)
              \<and> binlog_hdr_read K fd w6 = (Ret 0, dh, w7)
              \<and> binlog_get_next_lsn K (b1\<lparr>b_fd := fd, b_prealloc_size := st, b_disk_hdr := dh\<rparr>) w7
                  = Some (Ret c, w9)
              \<and> bo = Some (b1\<lparr>b_fd := fd, b_prealloc_size := st, b_disk_hdr := dh,
                              b_position := c\<rparr>)
              \<and> (\<forall>m wm. recovery_scan K (b1\<lparr>b_fd := fd, b_prealloc_size := st, b_disk_hdr := dh\<rparr>)
                            (int (sizeof_dhdr K)) w7 m wm \<and> m < 2 ^ 63
                          \<longrightarrow> c = m \<and> w9 = wm)"
    by blast
qed

theorem recovery_scan_correct_witness:
  "0 < sizeof_rhdr (packed_h 2 False) \<and> 0 < sizeof_dhdr (packed_h 2 False)
   \<and> 0 \<le> b_fd logged_handle
   \<and> recovery_scan (packed_h 2 False) logged_handle (int (sizeof_dhdr (packed_h 2 False)))
        logged_world 52
        (logged_world\<lparr>calls := calls logged_world @ [Pread 3 28 20, Pread 3 28 52]\<rparr>)
   \<and> (52 :: int) < 2 ^ 63
   \<and> binlog_get_next_lsn (packed_h 2 False) logged_handle logged_world
       = Some (Ret 52, logged_world\<lparr>calls := calls logged_world @ [Pread 3 28 20, Pread 3 28 52]\<rparr>)
   \<and> binlog_open (packed_h 2 False) (Some fresh_handle) fresh_world
       = Some (Ret 0, Some open_handle, open_world)
   \<and> (\<exists>e b1 w1 fd w2 w3 w4 h w5 st w6 dh w7 c.
          binlog_create (packed_h 2 False) fresh_handle fresh_world = (Ret e, b1, w1)
        \<and> (e = 0 \<or> e = - EEXIST)
        \<and> sys_open_rdwr (b_path b1) (b_flags b1 AND FLAGS_CFG_SYNC (packed_h 2 False) \<noteq> 0) w1
            = (Inr fd, w2)
        \<and> sys_flock fd True w2 = (Inr (), w3)
        \<and> (if b_flags b1 AND FLAGS_CFG_TRUNCATE (packed_h 2 False) \<noteq> 0
           then sys_ftruncate fd (sizeof_dhdr (packed_h 2 False)) w3 = (Inr (), w4) else w4 = w3)
        \<and> eblob_pagecache_hint fd w4 = (h, w5)
        \<and> sys_fstat fd w5 = (Inr st, w6)
        \<and> binlog_hdr_read (packed_h 2 False) fd w6 = (Ret 0, dh, w7)
        \<and> binlog_get_next_lsn (packed_h 2 False)
             (b1\<lparr>b_fd := fd, b_prealloc_size := st, b_disk_hdr := dh\<rparr>) w7
            = Some (Ret c, open_world)
        \<and> Some open_handle = Some (b1\<lparr>b_fd := fd, b_prealloc_size := st, b_disk_hdr := dh,
                                      b_position := c\<rparr>)
        \<and> (\<forall>m wm. recovery_scan (packed_h 2 False)
                      (b1\<lparr>b_fd := fd, b_prealloc_size := st, b_disk_hdr := dh\<rparr>)
                      (int (sizeof_dhdr (packed_h 2 False))) w7 m wm \<and> m < 2 ^ 63
                    \<longrightarrow> c = m \<and> open_world = wm))"
proof -
  let ?K = "packed_h 2 False"
  let ?r = "\<lparr>rh_type = 1, rh_size = 4, rh_meta_size = 0, rh_flags = 0, rh_key = [7, 9]\<rparr>"
  let ?w1 = "logged_world\<lparr>calls := calls logged_world @ [Pread 3 28 20]\<rparr>"
  let ?w2 = "logged_world\<lparr>calls := calls logged_world @ [Pread 3 28 20, Pread 3 28 52]\<rparr>"
  have s: "0 < sizeof_rhdr ?K" "0 < sizeof_dhdr ?K" "0 \<le> b_fd logged_handle" "(52 :: int) < 2 ^ 63"
    by (simp_all add: packed_h_def logged_handle_def open_handle_def)
  have d: "int (sizeof_dhdr ?K) = 20" by (simp add: packed_h_def)
  have h1: "record_header_at ?K logged_handle 20 logged_world = (Some ?r, ?w1)"
    by (simp add: record_header_at_def run_defs)
  have h2: "record_header_at ?K logged_handle (20 + int (sizeof_rhdr ?K) + int (rh_size ?r)) ?w1
              = (None, ?w2)"
    by (simp add: record_header_at_def run_defs)
  have "recovery_scan ?K logged_handle (20 + int (sizeof_rhdr ?K) + int (rh_size ?r)) ?w1
          (20 + int (sizeof_rhdr ?K) + int (rh_size ?r)) ?w2"
    by (rule scan_stop [OF h2])
  from scan_step [OF h1 this]
  have sc: "recovery_scan ?K logged_handle (int (sizeof_dhdr ?K)) logged_world 52 ?w2"
    by (simp add: packed_h_def)
  have o: "binlog_open ?K (Some fresh_handle) fresh_world = Some (Ret 0, Some open_handle, open_world)"
    by (simp add: run_defs)
  note t = recovery_scan_correct [OF s(1) s(2), where bcfg = logged_handle and w = logged_world
      and l = 52 and w' = ?w2 and ?b0.0 = fresh_handle and ?w0.0 = fresh_world
      and bo = "Some open_handle" and ?w9.0 = open_world]
  from t s(3) s(4) sc
  have g: "binlog_get_next_lsn ?K logged_handle logged_world = Some (Ret 52, ?w2)"
    by blast
  from t o
  have c: "\<exists>e b1 w1 fd w2 w3 w4 h w5 st w6 dh w7 c.
          binlog_create ?K fresh_handle fresh_world = (Ret e, b1, w1)
        \<and> (e = 0 \<or> e = - EEXIST)
        \<and> sys_open_rdwr (b_path b1) (b_flags b1 AND FLAGS_CFG_SYNC ?K \<noteq> 0) w1 = (Inr fd, w2)
        \<and> sys_flock fd True w2 = (Inr (), w3)
        \<and> (if b_flags b1 AND FLAGS_CFG_TRUNCATE ?K \<noteq> 0
           then sys_ftruncate fd (sizeof_dhdr ?K) w3 = (Inr (), w4) else w4 = w3)
        \<and> eblob_pagecache_hint fd w4 = (h, w5)
        \<and> sys_fstat fd w5 = (Inr st, w6)
        \<and> binlog_hdr_read ?K fd w6 = (Ret 0, dh, w7)
        \<and> binlog_get_next_lsn ?K (b1\<lparr>b_fd := fd, b_prealloc_size := st, b_disk_hdr := dh\<rparr>) w7
            = Some (Ret c, open_world)
        \<and> Some open_handle = Some (b1\<lparr>b_fd := fd, b_prealloc_size := st, b_disk_hdr := dh,
                                      b_position := c\<rparr>)
        \<and> (\<forall>m wm. recovery_scan ?K (b1\<lparr>b_fd := fd, b_prealloc_size := st, b_disk_hdr := dh\<rparr>)
                      (int (sizeof_dhdr ?K)) w7 m wm \<and> m < 2 ^ 63
                    \<longrightarrow> c = m \<and> open_world = wm)"
    by blast
  from s sc g o c show ?thesis by blast
qed

subsection \<open>The write cursor\<close>

text \<open>
  Each stage of \<open>binlog_append\<close> either returns 0 with the cursor moved by the length of
  the record, or does not return 0 and leaves the handle as it got it.
\<close>

lemma append_sync_outcome:
  "append_sync K b len w = (r, bo, w') \<Longrightarrow>
     (r = Ret 0 \<and> bo = Some (b\<lparr>b_position := b_position b + len\<rparr>)) \<or> (r \<noteq> Ret 0 \<and> bo = Some b)"
  by (auto simp: append_sync_def split: prod.splits if_splits)

lemma append_data_outcome:
  "append_data K bctl b len off w = (r, bo, w') \<Longrightarrow>
     (r = Ret 0 \<and> bo = Some (b\<lparr>b_position := b_position b + len\<rparr>)) \<or> (r \<noteq> Ret 0 \<and> bo = Some b)"
  by (auto simp: append_data_def Let_def errno_defs
      dest: sys_pwrite_errno dest!: append_sync_outcome split: prod.splits sum.splits if_splits)

lemma append_meta_outcome:
  "append_meta K bctl b len off w = (r, bo, w') \<Longrightarrow>
     (r = Ret 0 \<and> bo = Some (b\<lparr>b_position := b_position b + len\<rparr>)) \<or> (r \<noteq> Ret 0 \<and> bo = Some b)"
  by (auto simp: append_meta_def Let_def errno_defs
      dest: sys_pwrite_errno dest!: append_data_outcome split: prod.splits sum.splits if_splits)

lemma append_hdr_outcome:
  "append_hdr K bctl b len w = (r, bo, w') \<Longrightarrow>
     (r = Ret 0 \<and> bo = Some (b\<lparr>b_position := b_position b + len\<rparr>)) \<or> (r \<noteq> Ret 0 \<and> bo = Some b)"
  by (auto simp: append_hdr_def Let_def errno_defs
      dest: sys_pwrite_errno dest!: append_meta_outcome
      split: prod.splits sum.splits if_splits option.splits)

lemma binlog_extend_handle:
  "binlog_extend K b fd w = (err, b1, w1) \<Longrightarrow>
     b1 = (if b_flags b AND FLAGS_CFG_PREALLOC K \<noteq> 0
           then b\<lparr>b_prealloc_size := b_prealloc_size b + b_prealloc_step b\<rparr> else b)"
  by (auto simp: binlog_extend_def Let_def split: prod.splits if_splits)

lemma binlog_append_position:
  assumes "binlog_append K (Some bctl) w = (r, bo, w')" and "c_cfg bctl = Some bcfg"
  shows "\<exists>b1. bo = Some b1 \<and>
           b_position b1 = (if r = Ret 0
              then b_position bcfg + (int (sizeof_rhdr K) + c_meta_size bctl + c_size bctl)
              else b_position bcfg)"
proof (cases "\<not> NDEBUG K \<and> (b_fd bcfg < 0 \<or> b_position bcfg \<le> 0)")
  case True
  with assms have "r = AssertFail" "bo = Some bcfg" by (auto simp: binlog_append_def)
  then show ?thesis by simp
next
  case live: False
  let ?len = "int (sizeof_rhdr K) + c_meta_size bctl + c_size bctl"
  show ?thesis
  proof (cases "b_position bcfg + ?len \<ge> b_prealloc_size bcfg")
    case full: True
    obtain err b1 w1 where ext: "binlog_extend K bcfg (b_fd bcfg) w = (err, b1, w1)"
      by (cases "binlog_extend K bcfg (b_fd bcfg) w") auto
    have pos: "b_position b1 = b_position bcfg"
      using binlog_extend_handle [OF ext] by (simp split: if_splits)
    show ?thesis
    proof (cases "err = 0")
      case True
      with assms live full ext have "append_hdr K bctl b1 ?len w1 = (r, bo, w')"
        by (simp add: binlog_append_def Let_def)
      from append_hdr_outcome [OF this] pos show ?thesis by auto
    next
      case False
      with assms live full ext pos show ?thesis by (auto simp: binlog_append_def Let_def)
    qed
  next
    case False
    with assms live have "append_hdr K bctl bcfg ?len w = (r, bo, w')"
      by (simp add: binlog_append_def Let_def)
    from append_hdr_outcome [OF this] show ?thesis by auto
  qed
qed

lemma append_all_position:
  "append_all K bcfg rs w = Some (b', w') \<Longrightarrow>
     b_position b' = b_position bcfg
        + (\<Sum>r\<leftarrow>rs. int (sizeof_rhdr K) + c_meta_size r + c_size r)"
proof (induction rs arbitrary: bcfg w)
  case Nil
  then show ?case by simp
next
  case (Cons r rs)
  obtain res bo w1 where ap: "binlog_append K (Some (r\<lparr>c_cfg := Some bcfg\<rparr>)) w = (res, bo, w1)"
    by (cases "binlog_append K (Some (r\<lparr>c_cfg := Some bcfg\<rparr>)) w") auto
  with Cons.prems obtain b1
    where b1: "res = Ret 0" "bo = Some b1" "append_all K b1 rs w1 = Some (b', w')"
    by (auto split: outcome.splits option.splits if_splits)
  from binlog_append_position [OF ap] b1
  have "b_position b1 = b_position bcfg + (int (sizeof_rhdr K) + c_meta_size r + c_size r)"
    by simp
  with Cons.IH [OF b1(3)] show ?case by simp
qed

text \<open>
  An append that returns 0, stage by stage: every write and the sync were made, each
  in the world the one before left, and each succeeded in full.
\<close>

lemma append_sync_success:
  assumes "append_sync K b len w = (Ret 0, bo, w')"
  shows "(if b_flags b AND FLAGS_CFG_SYNC K = 0 then binlog_datasync (b_fd b) w = (0, w')
          else w' = w)
       \<and> bo = Some (b\<lparr>b_position := b_position b + len\<rparr>)"
  using assms by (auto simp: append_sync_def split: prod.splits if_splits)

lemma append_data_success:
  assumes "append_data K bctl b len off w = (Ret 0, bo, w')"
  shows "\<exists>w4. (if 0 < c_size bctl
               then sys_pwrite (b_fd b) (c_data bctl) (nat (c_size bctl)) (off + c_meta_size bctl) w
                      = (Inr (nat (c_size bctl)), w4)
               else w4 = w)
            \<and> append_sync K b len w4 = (Ret 0, bo, w')"
  using assms
  by (auto simp: append_data_def Let_def errno_defs dest: sys_pwrite_errno
      split: prod.splits sum.splits if_splits)

lemma append_meta_success:
  assumes "append_meta K bctl b len off w = (Ret 0, bo, w')"
  shows "\<exists>w3. (if 0 < c_meta_size bctl
               then sys_pwrite (b_fd b) (c_meta bctl) (nat (c_meta_size bctl))
                      (off + int (sizeof_rhdr K)) w
                      = (Inr (nat (c_meta_size bctl)), w3)
               else w3 = w)
            \<and> append_data K bctl b len
                 (if 0 < c_meta_size bctl then off + int (sizeof_rhdr K) else off) w3
                 = (Ret 0, bo, w')"
  using assms
  by (auto simp: append_meta_def Let_def errno_defs dest: sys_pwrite_errno
      split: prod.splits sum.splits if_splits)

lemma append_hdr_success:
  assumes "append_hdr K bctl b len w = (Ret 0, bo, w')"
  shows "\<exists>k w2. c_key bctl = Some k
            \<and> sys_pwrite (b_fd b)
                 (Some (repr_rhdr K \<lparr>rh_type = c_type bctl,
                                      rh_size = to_u64 (c_meta_size bctl + c_size bctl),
                                      rh_meta_size = indeterminate w, rh_flags = c_flags bctl,
                                      rh_key = k\<rparr>))
                 (sizeof_rhdr K) (b_position b) w
                 = (Inr (sizeof_rhdr K), w2)
            \<and> append_meta K bctl b len (b_position b) w2 = (Ret 0, bo, w')"
  using assms
  by (auto simp: append_hdr_def Let_def errno_defs dest: sys_pwrite_errno
      split: prod.splits sum.splits if_splits option.splits)

lemma binlog_append_success:
  assumes "binlog_append K (Some bctl) w = (Ret 0, bo, w')" and "c_cfg bctl = Some bcfg"
  shows "\<exists>b1 w1.
           (if b_prealloc_size bcfg
                 \<le> b_position bcfg + (int (sizeof_rhdr K) + c_meta_size bctl + c_size bctl)
            then binlog_extend K bcfg (b_fd bcfg) w = (0, b1, w1) else b1 = bcfg \<and> w1 = w)
         \<and> append_hdr K bctl b1 (int (sizeof_rhdr K) + c_meta_size bctl + c_size bctl) w1
             = (Ret 0, bo, w')"
  using assms
  by (auto simp: binlog_append_def Let_def split: prod.splits if_splits)

lemma binlog_append_writes:
  assumes "binlog_append K (Some bctl) w = (Ret 0, bo, w')" and "c_cfg bctl = Some bcfg"
  shows "\<exists>b1 w1 k w2 w3 w4.
           (if b_prealloc_size bcfg
                 \<le> b_position bcfg + (int (sizeof_rhdr K) + c_meta_size bctl + c_size bctl)
            then binlog_extend K bcfg (b_fd bcfg) w = (0, b1, w1) else b1 = bcfg \<and> w1 = w)
         \<and> c_key bctl = Some k
         \<and> sys_pwrite (b_fd b1)
              (Some (repr_rhdr K \<lparr>rh_type = c_type bctl,
                                   rh_size = to_u64 (c_meta_size bctl + c_size bctl),
                                   rh_meta_size = indeterminate w1, rh_flags = c_flags bctl,
                                   rh_key = k\<rparr>))
              (sizeof_rhdr K) (b_position b1) w1
              = (Inr (sizeof_rhdr K), w2)
         \<and> (if 0 < c_meta_size bctl
            then sys_pwrite (b_fd b1) (c_meta bctl) (nat (c_meta_size bctl))
                   (b_position b1 + int (sizeof_rhdr K)) w2
                   = (Inr (nat (c_meta_size bctl)), w3)
            else w3 = w2)
         \<and> (if 0 < c_size bctl
            then sys_pwrite (b_fd b1) (c_data bctl) (nat (c_size bctl))
                   ((if 0 < c_meta_size bctl then b_position b1 + int (sizeof_rhdr K)
                     else b_position b1) + c_meta_size bctl) w3
                   = (Inr (nat (c_size bctl)), w4)
            else w4 = w3)
         \<and> (if b_flags b1 AND FLAGS_CFG_SYNC K = 0 then binlog_datasync (b_fd b1) w4 = (0, w')
            else w' = w4)
         \<and> bo = Some (b1\<lparr>b_position := b_position b1
                             + (int (sizeof_rhdr K) + c_meta_size bctl + c_size bctl)\<rparr>)"
proof -
  let ?len = "int (sizeof_rhdr K) + c_meta_size bctl + c_size bctl"
  from binlog_append_success [OF assms] obtain b1 w1
    where e: "if b_prealloc_size bcfg \<le> b_position bcfg + ?len
              then binlog_extend K bcfg (b_fd bcfg) w = (0, b1, w1) else b1 = bcfg \<and> w1 = w"
      and "append_hdr K bctl b1 ?len w1 = (Ret 0, bo, w')" by blast
  from append_hdr_success [OF this(2)] obtain k w2
    where h: "c_key bctl = Some k"
      "sys_pwrite (b_fd b1)
              (Some (repr_rhdr K \<lparr>rh_type = c_type bctl,
                                   rh_size = to_u64 (c_meta_size bctl + c_size bctl),
                                   rh_meta_size = indeterminate w1, rh_flags = c_flags bctl,
                                   rh_key = k\<rparr>))
              (sizeof_rhdr K) (b_position b1) w1
              = (Inr (sizeof_rhdr K), w2)"
      and "append_meta K bctl b1 ?len (b_position b1) w2 = (Ret 0, bo, w')" by blast
  from append_meta_success [OF this(3)] obtain w3
    where m: "if 0 < c_meta_size bctl
            then sys_pwrite (b_fd b1) (c_meta bctl) (nat (c_meta_size bctl))
                   (b_position b1 + int (sizeof_rhdr K)) w2
                   = (Inr (nat (c_meta_size bctl)), w3)
            else w3 = w2"
      and "append_data K bctl b1 ?len
             (if 0 < c_meta_size bctl then b_position b1 + int (sizeof_rhdr K) else b_position b1) w3
             = (Ret 0, bo, w')" by blast
  from append_data_success [OF this(2)] obtain w4
    where d: "if 0 < c_size bctl
            then sys_pwrite (b_fd b1) (c_data bctl) (nat (c_size bctl))
                   ((if 0 < c_meta_size bctl then b_position b1 + int (sizeof_rhdr K)
                     else b_position b1) + c_meta_size bctl) w3
                   = (Inr (nat (c_size bctl)), w4)
            else w4 = w3"
      and "append_sync K b1 ?len w4 = (Ret 0, bo, w')" by blast
  from append_sync_success [OF this(2)]
  have y: "if b_flags b1 AND FLAGS_CFG_SYNC K = 0 then binlog_datasync (b_fd b1) w4 = (0, w')
           else w' = w4"
    and p: "bo = Some (b1\<lparr>b_position := b_position b1 + ?len\<rparr>)" by simp_all
  from e h m d y p show ?thesis by blast
qed

text \<open>
  C3. When a list of records is appended, every call returning 0, to a handle whose
  cursor stands at the size of the disk header, the cursor ends at that size plus the
  sum over the records of the size of a record header, the metadata size and the data
  size. An append that returns an error leaves the cursor where it was. An append that
  returns 0, and so moves the cursor, has made all its calls with success, each in the
  world the call before left: the extension of the file when the record reaches the
  preallocated size, the write of the whole record header, the write of all the metadata
  when there is metadata, the write of all the data when there is data, and the
  \<open>binlog_datasync\<close> when the log is not in synchronous mode; the cursor it returns is
  the old one plus the length of the record.
\<close>

theorem cursor_after_appends:
  "(b_position bcfg = int (sizeof_dhdr K) \<and> append_all K bcfg rs w = Some (b', w')
      \<longrightarrow> b_position b' = int (sizeof_dhdr K)
            + (\<Sum>r\<leftarrow>rs. int (sizeof_rhdr K) + c_meta_size r + c_size r))
   \<and> (c_cfg bctl = Some b0 \<and> binlog_append K (Some bctl) wa = (Ret e, bo, wb) \<and> e \<noteq> 0
      \<longrightarrow> (\<exists>b1. bo = Some b1 \<and> b_position b1 = b_position b0))
   \<and> (c_cfg c1 = Some bc \<and> binlog_append K (Some c1) wc = (Ret 0, bd, wd)
      \<longrightarrow> (\<exists>b1 w1 k w2 w3 w4.
           (if b_prealloc_size bc
                 \<le> b_position bc + (int (sizeof_rhdr K) + c_meta_size c1 + c_size c1)
            then binlog_extend K bc (b_fd bc) wc = (0, b1, w1) else b1 = bc \<and> w1 = wc)
         \<and> c_key c1 = Some k
         \<and> sys_pwrite (b_fd b1)
              (Some (repr_rhdr K \<lparr>rh_type = c_type c1,
                                   rh_size = to_u64 (c_meta_size c1 + c_size c1),
                                   rh_meta_size = indeterminate w1, rh_flags = c_flags c1,
                                   rh_key = k\<rparr>))
              (sizeof_rhdr K) (b_position b1) w1
              = (Inr (sizeof_rhdr K), w2)
         \<and> (if 0 < c_meta_size c1
            then sys_pwrite (b_fd b1) (c_meta c1) (nat (c_meta_size c1))
                   (b_position b1 + int (sizeof_rhdr K)) w2
                   = (Inr (nat (c_meta_size c1)), w3)
            else w3 = w2)
         \<and> (if 0 < c_size c1
            then sys_pwrite (b_fd b1) (c_data c1) (nat (c_size c1))
                   ((if 0 < c_meta_size c1 then b_position b1 + int (sizeof_rhdr K)
                     else b_position b1) + c_meta_size c1) w3
                   = (Inr (nat (c_size c1)), w4)
            else w4 = w3)
         \<and> (if b_flags b1 AND FLAGS_CFG_SYNC K = 0 then binlog_datasync (b_fd b1) w4 = (0, wd)
            else wd = w4)
         \<and> bd = Some (b1\<lparr>b_position := b_position b1
                             + (int (sizeof_rhdr K) + c_meta_size c1 + c_size c1)\<rparr>)))"
proof (intro conjI impI)
  assume "b_position bcfg = int (sizeof_dhdr K) \<and> append_all K bcfg rs w = Some (b', w')"
  then show "b_position b' = int (sizeof_dhdr K)
            + (\<Sum>r\<leftarrow>rs. int (sizeof_rhdr K) + c_meta_size r + c_size r)"
    using append_all_position [of K bcfg rs w b' w'] by simp
next
  assume "c_cfg bctl = Some b0 \<and> binlog_append K (Some bctl) wa = (Ret e, bo, wb) \<and> e \<noteq> 0"
  then show "\<exists>b1. bo = Some b1 \<and> b_position b1 = b_position b0"
    using binlog_append_position [of K bctl wa "Ret e" bo wb b0] by simp
next
  assume "c_cfg c1 = Some bc \<and> binlog_append K (Some c1) wc = (Ret 0, bd, wd)"
  then have "binlog_append K (Some c1) wc = (Ret 0, bd, wd)" "c_cfg c1 = Some bc" by simp_all
  then show "\<exists>b1 w1 k w2 w3 w4.
           (if b_prealloc_size bc
                 \<le> b_position bc + (int (sizeof_rhdr K) + c_meta_size c1 + c_size c1)
            then binlog_extend K bc (b_fd bc) wc = (0, b1, w1) else b1 = bc \<and> w1 = wc)
         \<and> c_key c1 = Some k
         \<and> sys_pwrite (b_fd b1)
              (Some (repr_rhdr K \<lparr>rh_type = c_type c1,
                                   rh_size = to_u64 (c_meta_size c1 + c_size c1),
                                   rh_meta_size = indeterminate w1, rh_flags = c_flags c1,
                                   rh_key = k\<rparr>))
              (sizeof_rhdr K) (b_position b1) w1
              = (Inr (sizeof_rhdr K), w2)
         \<and> (if 0 < c_meta_size c1
            then sys_pwrite (b_fd b1) (c_meta c1) (nat (c_meta_size c1))
                   (b_position b1 + int (sizeof_rhdr K)) w2
                   = (Inr (nat (c_meta_size c1)), w3)
            else w3 = w2)
         \<and> (if 0 < c_size c1
            then sys_pwrite (b_fd b1) (c_data c1) (nat (c_size c1))
                   ((if 0 < c_meta_size c1 then b_position b1 + int (sizeof_rhdr K)
                     else b_position b1) + c_meta_size c1) w3
                   = (Inr (nat (c_size c1)), w4)
            else w4 = w3)
         \<and> (if b_flags b1 AND FLAGS_CFG_SYNC K = 0 then binlog_datasync (b_fd b1) w4 = (0, wd)
            else wd = w4)
         \<and> bd = Some (b1\<lparr>b_position := b_position b1
                             + (int (sizeof_rhdr K) + c_meta_size c1 + c_size c1)\<rparr>)"
    by (rule binlog_append_writes)
qed

theorem cursor_after_appends_witness:
  "b_position open_handle = int (sizeof_dhdr (packed_h 2 False))
   \<and> (\<exists>b' w'. append_all (packed_h 2 False) open_handle [rec_md, rec_d] open_world = Some (b', w')
         \<and> b_position b' = 20 + ((28 + 2 + 2) + (28 + 0 + 2)))
   \<and> binlog_append (packed_h 2 False) (Some (rec_md\<lparr>c_cfg := Some open_handle\<rparr>))
         (open_world\<lparr>script := [Pass, Pass, Pass, Fail EIO]\<rparr>)
       = (Ret (- EIO), Some open_handle, logged_world)
   \<and> - EIO \<noteq> 0 \<and> b_position open_handle = 20
   \<and> binlog_append (packed_h 2 False) (Some (rec_md\<lparr>c_cfg := Some open_handle\<rparr>)) open_world
       = (Ret 0, Some logged_handle, logged_world)
   \<and> (\<exists>w2 w3 w4.
         sys_pwrite 3 (Some [1, 0, 4, 0, 0, 0, 0, 0, 0, 0, 0, 0, 0, 0, 0, 0, 0, 0, 0, 0, 0, 0, 0, 0,
                             0, 0, 7, 9]) 28 20 open_world = (Inr 28, w2)
       \<and> sys_pwrite 3 (Some [0x6d, 0x31]) 2 48 w2 = (Inr 2, w3)
       \<and> sys_pwrite 3 (Some [0x64, 0x31]) 2 50 w3 = (Inr 2, w4)
       \<and> binlog_datasync 3 w4 = (0, logged_world)
       \<and> Some logged_handle = Some (open_handle\<lparr>b_position := 20 + (28 + 2 + 2)\<rparr>))"
proof -
  let ?K = "packed_h 2 False"
  let ?c = "rec_md\<lparr>c_cfg := Some open_handle\<rparr>"
  have p: "b_position open_handle = int (sizeof_dhdr ?K)"
    by (simp add: packed_h_def open_handle_def)
  have "\<exists>b' w'. append_all ?K open_handle [rec_md, rec_d] open_world = Some (b', w')"
    by (simp add: run_defs)
  then obtain b' w' where a: "append_all ?K open_handle [rec_md, rec_d] open_world = Some (b', w')"
    by blast
  have f: "binlog_append ?K (Some ?c) (open_world\<lparr>script := [Pass, Pass, Pass, Fail EIO]\<rparr>)
       = (Ret (- EIO), Some open_handle, logged_world)"
    by (simp add: run_defs)
  have g: "binlog_append ?K (Some ?c) open_world = (Ret 0, Some logged_handle, logged_world)"
    by (simp add: run_defs)
  have c: "c_cfg ?c = Some open_handle" "- EIO \<noteq> 0" by (simp_all add: EIO_def)
  note t = cursor_after_appends [where bcfg = open_handle and K = ?K and rs = "[rec_md, rec_d]"
      and w = open_world and b' = b' and w' = w' and bctl = ?c
      and ?b0.0 = open_handle and wa = "open_world\<lparr>script := [Pass, Pass, Pass, Fail EIO]\<rparr>"
      and e = "- EIO" and bo = "Some open_handle" and wb = logged_world
      and ?c1.0 = ?c and bc = open_handle and wc = open_world and bd = "Some logged_handle"
      and wd = logged_world]
  from t p a have s: "b_position b' = 20 + ((28 + 2 + 2) + (28 + 0 + 2))"
    by (simp add: packed_h_def rec_md_def rec_d_def)
  from t c f have u: "b_position open_handle = 20"
    by (simp add: open_handle_def)
  from t c g
  have "\<exists>b1 w1 k w2 w3 w4.
           (if b_prealloc_size open_handle
                 \<le> b_position open_handle + (int (sizeof_rhdr ?K) + c_meta_size ?c + c_size ?c)
            then binlog_extend ?K open_handle (b_fd open_handle) open_world = (0, b1, w1)
            else b1 = open_handle \<and> w1 = open_world)
         \<and> c_key ?c = Some k
         \<and> sys_pwrite (b_fd b1)
              (Some (repr_rhdr ?K \<lparr>rh_type = c_type ?c,
                                   rh_size = to_u64 (c_meta_size ?c + c_size ?c),
                                   rh_meta_size = indeterminate w1, rh_flags = c_flags ?c,
                                   rh_key = k\<rparr>))
              (sizeof_rhdr ?K) (b_position b1) w1
              = (Inr (sizeof_rhdr ?K), w2)
         \<and> (if 0 < c_meta_size ?c
            then sys_pwrite (b_fd b1) (c_meta ?c) (nat (c_meta_size ?c))
                   (b_position b1 + int (sizeof_rhdr ?K)) w2
                   = (Inr (nat (c_meta_size ?c)), w3)
            else w3 = w2)
         \<and> (if 0 < c_size ?c
            then sys_pwrite (b_fd b1) (c_data ?c) (nat (c_size ?c))
                   ((if 0 < c_meta_size ?c then b_position b1 + int (sizeof_rhdr ?K)
                     else b_position b1) + c_meta_size ?c) w3
                   = (Inr (nat (c_size ?c)), w4)
            else w4 = w3)
         \<and> (if b_flags b1 AND FLAGS_CFG_SYNC ?K = 0
            then binlog_datasync (b_fd b1) w4 = (0, logged_world)
            else logged_world = w4)
         \<and> Some logged_handle = Some (b1\<lparr>b_position := b_position b1
                             + (int (sizeof_rhdr ?K) + c_meta_size ?c + c_size ?c)\<rparr>)"
    by blast
  then obtain b1 w1 k w2 w3 w4 where
    x: "if b_prealloc_size open_handle
                 \<le> b_position open_handle + (int (sizeof_rhdr ?K) + c_meta_size ?c + c_size ?c)
            then binlog_extend ?K open_handle (b_fd open_handle) open_world = (0, b1, w1)
            else b1 = open_handle \<and> w1 = open_world"
      "c_key ?c = Some k"
      "sys_pwrite (b_fd b1)
              (Some (repr_rhdr ?K \<lparr>rh_type = c_type ?c,
                                   rh_size = to_u64 (c_meta_size ?c + c_size ?c),
                                   rh_meta_size = indeterminate w1, rh_flags = c_flags ?c,
                                   rh_key = k\<rparr>))
              (sizeof_rhdr ?K) (b_position b1) w1
              = (Inr (sizeof_rhdr ?K), w2)"
      "if 0 < c_meta_size ?c
            then sys_pwrite (b_fd b1) (c_meta ?c) (nat (c_meta_size ?c))
                   (b_position b1 + int (sizeof_rhdr ?K)) w2
                   = (Inr (nat (c_meta_size ?c)), w3)
            else w3 = w2"
      "if 0 < c_size ?c
            then sys_pwrite (b_fd b1) (c_data ?c) (nat (c_size ?c))
                   ((if 0 < c_meta_size ?c then b_position b1 + int (sizeof_rhdr ?K)
                     else b_position b1) + c_meta_size ?c) w3
                   = (Inr (nat (c_size ?c)), w4)
            else w4 = w3"
      "if b_flags b1 AND FLAGS_CFG_SYNC ?K = 0
            then binlog_datasync (b_fd b1) w4 = (0, logged_world)
            else logged_world = w4"
      "Some logged_handle = Some (b1\<lparr>b_position := b_position b1
                             + (int (sizeof_rhdr ?K) + c_meta_size ?c + c_size ?c)\<rparr>)"
    by blast
  have ext: "binlog_extend ?K open_handle (b_fd open_handle) open_world = (0, open_handle, open_world)"
    by (simp add: binlog_extend_def packed_h_def open_handle_def)
  from x(1) ext have b1: "b1 = open_handle" "w1 = open_world" by (simp_all split: if_splits)
  from x(2) have k: "k = [7, 9]" by (simp add: rec_md_def)
  have hb: "repr_rhdr ?K \<lparr>rh_type = c_type ?c, rh_size = to_u64 (c_meta_size ?c + c_size ?c),
                 rh_meta_size = indeterminate open_world, rh_flags = c_flags ?c, rh_key = [7, 9]\<rparr>
              = [1, 0, 4, 0, 0, 0, 0, 0, 0, 0, 0, 0, 0, 0, 0, 0, 0, 0, 0, 0, 0, 0, 0, 0, 0, 0, 7, 9]"
    by (simp add: packed_h_def rec_md_def open_world_def to_u64_def le16_def le32_def le64_def
        pad_def)
  from x(3) b1 k hb
  have y3: "sys_pwrite 3 (Some [1, 0, 4, 0, 0, 0, 0, 0, 0, 0, 0, 0, 0, 0, 0, 0, 0, 0, 0, 0, 0, 0, 0, 0,
                             0, 0, 7, 9]) 28 20 open_world = (Inr 28, w2)"
    by (simp add: packed_h_def open_handle_def)
  from x(4) b1 have y4: "sys_pwrite 3 (Some [0x6d, 0x31]) 2 48 w2 = (Inr 2, w3)"
    by (simp add: packed_h_def open_handle_def rec_md_def)
  from x(5) b1 have y5: "sys_pwrite 3 (Some [0x64, 0x31]) 2 50 w3 = (Inr 2, w4)"
    by (simp add: packed_h_def open_handle_def rec_md_def)
  from x(6) b1 have y6: "binlog_datasync 3 w4 = (0, logged_world)"
    by (simp add: packed_h_def open_handle_def)
  from x(7) b1 have y7: "Some logged_handle = Some (open_handle\<lparr>b_position := 20 + (28 + 2 + 2)\<rparr>)"
    by (simp add: packed_h_def open_handle_def rec_md_def)
  from p a s f c(2) u g y3 y4 y5 y6 y7 show ?thesis by blast
qed

text \<open>
  C10. When the file had to be extended, the extension succeeded and the append then
  returned an error, the handle's preallocated size stays one step larger and its
  cursor is the one before the call.
\<close>

theorem failed_append_keeps_prealloc:
  assumes "c_cfg bctl = Some bcfg"
    and "b_flags bcfg AND FLAGS_CFG_PREALLOC K \<noteq> 0"
    and "b_position bcfg + (int (sizeof_rhdr K) + c_meta_size bctl + c_size bctl)
           \<ge> b_prealloc_size bcfg"
    and "binlog_extend K bcfg (b_fd bcfg) w = (0, b1, w1)"
    and "binlog_append K (Some bctl) w = (Ret e, bo, w')" and "e \<noteq> 0"
  shows "\<exists>b'. bo = Some b' \<and> b_prealloc_size b' = b_prealloc_size bcfg + b_prealloc_step bcfg
           \<and> b_position b' = b_position bcfg"
proof -
  let ?len = "int (sizeof_rhdr K) + c_meta_size bctl + c_size bctl"
  have b1: "b1 = bcfg\<lparr>b_prealloc_size := b_prealloc_size bcfg + b_prealloc_step bcfg\<rparr>"
    using binlog_extend_handle [OF assms(4)] assms(2) by simp
  from assms(5) assms(1) have "\<not> (\<not> NDEBUG K \<and> (b_fd bcfg < 0 \<or> b_position bcfg \<le> 0))"
    by (auto simp: binlog_append_def)
  with assms have "append_hdr K bctl b1 ?len w1 = (Ret e, bo, w')"
    by (simp add: binlog_append_def Let_def)
  from append_hdr_outcome [OF this] assms(6) have "bo = Some b1"
    by auto
  with b1 show ?thesis by simp
qed


theorem failed_append_keeps_prealloc_witness:
  "c_cfg (rec_md\<lparr>c_cfg := Some (open_handle\<lparr>b_flags := 2\<rparr>)\<rparr>) = Some (open_handle\<lparr>b_flags := 2\<rparr>)
   \<and> binlog_extend (packed_h 2 False) (open_handle\<lparr>b_flags := 2\<rparr>) 3 (open_world\<lparr>script := [Pass, Fail EIO]\<rparr>)
       = (0, open_handle\<lparr>b_flags := 2, b_prealloc_size := 84\<rparr>,
          open_world\<lparr>script := [Fail EIO], calls := calls open_world @ [Allocate 3 84],
             disk := Some (contents open_world @ replicate 64 0)\<rparr>)
   \<and> (\<exists>b' w'. binlog_append (packed_h 2 False)
           (Some (rec_md\<lparr>c_cfg := Some (open_handle\<lparr>b_flags := 2\<rparr>)\<rparr>))
           (open_world\<lparr>script := [Pass, Fail EIO]\<rparr>) = (Ret (- EIO), Some b', w')
         \<and> b_prealloc_size b' = 20 + 64 \<and> b_position b' = 20)"
proof -
  let ?K = "packed_h 2 False"
  let ?h = "open_handle\<lparr>b_flags := 2\<rparr>"
  let ?c = "rec_md\<lparr>c_cfg := Some ?h\<rparr>"
  let ?w = "open_world\<lparr>script := [Pass, Fail EIO]\<rparr>"
  have e: "binlog_extend ?K ?h 3 ?w
       = (0, open_handle\<lparr>b_flags := 2, b_prealloc_size := 84\<rparr>,
          open_world\<lparr>script := [Fail EIO], calls := calls open_world @ [Allocate 3 84],
             disk := Some (contents open_world @ replicate 64 0)\<rparr>)"
    by (simp add: run_defs)
  have "\<exists>bo w'. binlog_append ?K (Some ?c) ?w = (Ret (- EIO), bo, w')"
    by (simp add: run_defs)
  then obtain bo w' where a: "binlog_append ?K (Some ?c) ?w = (Ret (- EIO), bo, w')" by blast
  have h: "c_cfg ?c = Some ?h" "b_flags ?h AND FLAGS_CFG_PREALLOC ?K \<noteq> 0"
    "b_position ?h + (int (sizeof_rhdr ?K) + c_meta_size ?c + c_size ?c) \<ge> b_prealloc_size ?h"
    "b_fd ?h = 3" "- EIO \<noteq> 0"
    by (simp_all add: packed_h_def rec_md_def open_handle_def EIO_def)
  from failed_append_keeps_prealloc [OF h(1) h(2) h(3) e [folded h(4)] a h(5)]
  obtain b' where "bo = Some b'" "b_prealloc_size b' = b_prealloc_size ?h + b_prealloc_step ?h"
    "b_position b' = b_position ?h" by blast
  with a e show ?thesis by (simp add: open_handle_def)
qed

subsection \<open>Append, then read\<close>

lemma sys_pwrite_calls:
  "sys_pwrite fd bp n off w = (res, w') \<Longrightarrow>
     calls w' = calls w @ [Pwrite fd (case bp of None \<Rightarrow> [] | Some buf \<Rightarrow> take n buf) off]"
  by (auto simp: sys_pwrite_def Let_def enter_def split: fault.splits if_splits option.splits)

lemma append_sync_calls:
  "append_sync K b len w = (r, bo, w') \<Longrightarrow> \<exists>cs. calls w' = calls w @ cs"
  by (auto simp: append_sync_def binlog_datasync_def Let_def enter_def
      split: prod.splits if_splits fault.splits)

lemma append_data_calls:
  assumes "append_data K bctl b len off w = (Ret 0, bo, w')" and "0 < c_size bctl"
  shows "\<exists>d cs. calls w' = calls w @ Pwrite (b_fd b) d (off + c_meta_size bctl) # cs"
proof -
  obtain res w1
    where pw: "sys_pwrite (b_fd b) (c_data bctl) (nat (c_size bctl)) (off + c_meta_size bctl) w = (res, w1)"
    by (cases "sys_pwrite (b_fd b) (c_data bctl) (nat (c_size bctl)) (off + c_meta_size bctl) w") auto
  with assms have "append_sync K b len w1 = (Ret 0, bo, w')"
    by (auto simp: append_data_def Let_def errno_defs dest: sys_pwrite_errno
        split: sum.splits if_splits)
  from append_sync_calls [OF this] sys_pwrite_calls [OF pw] show ?thesis by auto
qed

lemma append_hdr_calls:
  assumes "append_hdr K bctl b len w = (Ret 0, bo, w')"
  shows "\<exists>k w1. c_key bctl = Some k
           \<and> calls w1 = calls w @ [Pwrite (b_fd b)
                (take (sizeof_rhdr K)
                   (repr_rhdr K \<lparr>rh_type = c_type bctl,
                                 rh_size = to_u64 (c_meta_size bctl + c_size bctl),
                                 rh_meta_size = indeterminate w, rh_flags = c_flags bctl,
                                 rh_key = k\<rparr>))
                (b_position b)]
           \<and> append_meta K bctl b len (b_position b) w1 = (Ret 0, bo, w')"
proof -
  from assms obtain k where k: "c_key bctl = Some k"
    by (auto simp: append_hdr_def split: option.splits)
  let ?r = "\<lparr>rh_type = c_type bctl, rh_size = to_u64 (c_meta_size bctl + c_size bctl),
             rh_meta_size = indeterminate w, rh_flags = c_flags bctl, rh_key = k\<rparr>"
  obtain res w1
    where pw: "sys_pwrite (b_fd b) (Some (repr_rhdr K ?r)) (sizeof_rhdr K) (b_position b) w = (res, w1)"
    by (cases "sys_pwrite (b_fd b) (Some (repr_rhdr K ?r)) (sizeof_rhdr K) (b_position b) w") auto
  with assms k have "append_meta K bctl b len (b_position b) w1 = (Ret 0, bo, w')"
    by (auto simp: append_hdr_def Let_def errno_defs dest: sys_pwrite_errno
        split: sum.splits if_splits)
  with sys_pwrite_calls [OF pw] k show ?thesis by auto
qed

text \<open>
  The two slips of \<open>binlog_append\<close>, for every instance and every record. The header
  an append writes carries the indeterminate value as its \<open>meta_size\<close>; and an append
  that returns 0 for a record with data and no metadata has written the data at the
  offset of the header.
\<close>

lemma append_writes_indeterminate:
  assumes "append_hdr K bctl b len w = (Ret 0, bo, w')"
  shows "\<exists>k cs. c_key bctl = Some k
           \<and> calls w' = calls w @ Pwrite (b_fd b)
                (take (sizeof_rhdr K)
                   (repr_rhdr K \<lparr>rh_type = c_type bctl,
                                 rh_size = to_u64 (c_meta_size bctl + c_size bctl),
                                 rh_meta_size = indeterminate w, rh_flags = c_flags bctl,
                                 rh_key = k\<rparr>))
                (b_position b) # cs"
proof -
  from append_hdr_calls [OF assms] obtain k w1
    where h: "c_key bctl = Some k"
      "calls w1 = calls w @ [Pwrite (b_fd b)
                (take (sizeof_rhdr K)
                   (repr_rhdr K \<lparr>rh_type = c_type bctl,
                                 rh_size = to_u64 (c_meta_size bctl + c_size bctl),
                                 rh_meta_size = indeterminate w, rh_flags = c_flags bctl,
                                 rh_key = k\<rparr>))
                (b_position b)]"
      "append_meta K bctl b len (b_position b) w1 = (Ret 0, bo, w')"
    by blast
  have "\<exists>cs. calls w' = calls w1 @ cs"
  proof (cases "0 < c_meta_size bctl")
    case True
    obtain res w2
      where pw: "sys_pwrite (b_fd b) (c_meta bctl) (nat (c_meta_size bctl))
                   (b_position b + int (sizeof_rhdr K)) w1 = (res, w2)"
      by (cases "sys_pwrite (b_fd b) (c_meta bctl) (nat (c_meta_size bctl))
                   (b_position b + int (sizeof_rhdr K)) w1") auto
    with h(3) True
    have d: "append_data K bctl b len (b_position b + int (sizeof_rhdr K)) w2 = (Ret 0, bo, w')"
      by (auto simp: append_meta_def Let_def errno_defs dest: sys_pwrite_errno
          split: sum.splits if_splits)
    have "\<exists>cs. calls w' = calls w2 @ cs"
    proof (cases "0 < c_size bctl")
      case True
      from append_data_calls [OF d True] show ?thesis by auto
    next
      case False
      with d have "append_sync K b len w2 = (Ret 0, bo, w')" by (simp add: append_data_def)
      from append_sync_calls [OF this] show ?thesis .
    qed
    with sys_pwrite_calls [OF pw] show ?thesis by auto
  next
    case False
    with h(3) have d: "append_data K bctl b len (b_position b) w1 = (Ret 0, bo, w')"
      by (simp add: append_meta_def)
    show ?thesis
    proof (cases "0 < c_size bctl")
      case True
      from append_data_calls [OF d True] show ?thesis by auto
    next
      case False
      with d have "append_sync K b len w1 = (Ret 0, bo, w')" by (simp add: append_data_def)
      from append_sync_calls [OF this] show ?thesis .
    qed
  qed
  with h(1) h(2) show ?thesis by auto
qed

lemma append_data_over_header:
  assumes "append_hdr K bctl b len w = (Ret 0, bo, w')"
    and "c_meta_size bctl = 0" and "0 < c_size bctl"
  shows "\<exists>h d cs. calls w' = calls w @ Pwrite (b_fd b) h (b_position b)
                                    # Pwrite (b_fd b) d (b_position b) # cs"
proof -
  from append_hdr_calls [OF assms(1)] obtain h w1
    where h: "calls w1 = calls w @ [Pwrite (b_fd b) h (b_position b)]"
      "append_meta K bctl b len (b_position b) w1 = (Ret 0, bo, w')"
    by blast
  from h(2) assms(2) have "append_data K bctl b len (b_position b) w1 = (Ret 0, bo, w')"
    by (simp add: append_meta_def)
  from append_data_calls [OF this assms(3)] assms(2) h(1) show ?thesis by auto
qed

text \<open>
  C1, at two records appended to the open log and read back at the offset the cursor had.
  The record with metadata \<open>m1\<close> and data \<open>d1\<close> comes back with no metadata and the
  data \<open>m1d1\<close>: the header's \<open>meta_size\<close> is never assigned, and holds here the
  indeterminate value 0. For the record with no metadata and data \<open>d2\<close> the append
  returns 0 and the read fails: the data was written at the offset of the record header,
  whose type field it overwrote.
\<close>

theorem append_read_round_trip_fails:
  "binlog_append (packed_h 2 False) (Some (rec_md\<lparr>c_cfg := Some open_handle\<rparr>)) open_world
     = (Ret 0, Some logged_handle, logged_world)
   \<and> binlog_read (packed_h 2 False) (Some (zero_ctl\<lparr>c_cfg := Some logged_handle, c_key := Some [0, 0]\<rparr>))
        (b_position open_handle) logged_world
     = (Ret 0,
        Some \<lparr>c_cfg = Some logged_handle, c_type = 1, c_key = Some [7, 9], c_flags = 0,
              c_meta = None, c_meta_size = 0, c_data = Some [0x6d, 0x31, 0x64, 0x31], c_size = 4\<rparr>,
        logged_world\<lparr>calls := calls logged_world @ [Pread 3 28 20, Malloc 4, Pread 3 4 48]\<rparr>)
   \<and> (case binlog_append (packed_h 2 False) (Some (rec_d\<lparr>c_cfg := Some open_handle\<rparr>)) open_world of
        (r, bo, w1) \<Rightarrow>
          r = Ret 0 \<and>
          fst (binlog_read (packed_h 2 False) (Some (zero_ctl\<lparr>c_cfg := bo, c_key := Some [0, 0]\<rparr>))
                 (b_position open_handle) w1) = Ret (- EINVAL))"
  by (simp add: run_defs)

text \<open>
  C8, at the same two records. The headers on disk after the appends returned 0: one
  with \<open>meta_size = 100\<close>, the indeterminate value, above \<open>size = 4\<close>; one with the type
  12900, outside the sentinels 0 and 5.
\<close>

theorem append_writes_indeterminate_meta_size:
  "(case binlog_append (packed_h 2 False) (Some (rec_md\<lparr>c_cfg := Some open_handle\<rparr>))
           (open_world\<lparr>indeterminate := 100\<rparr>) of
      (r, bo, w1) \<Rightarrow>
        r = Ret 0 \<and>
        value_rhdr (packed_h 2 False) (take 28 (drop 20 (contents w1)))
          = \<lparr>rh_type = 1, rh_size = 4, rh_meta_size = 100, rh_flags = 0, rh_key = [7, 9]\<rparr>)
   \<and> (case binlog_append (packed_h 2 False) (Some (rec_d\<lparr>c_cfg := Some open_handle\<rparr>)) open_world of
      (r, bo, w1) \<Rightarrow>
        r = Ret 0 \<and>
        value_rhdr (packed_h 2 False) (take 28 (drop 20 (contents w1)))
          = \<lparr>rh_type = 12900, rh_size = 2, rh_meta_size = 0, rh_flags = 0, rh_key = [8, 8]\<rparr>)"
  by (simp add: run_defs)

subsection \<open>Replay\<close>

text \<open>
  C9. On a handle whose write cursor equals the size of the disk header,
  \<open>binlog_apply\<close> with a handler returns 0, calls the handler for no record, and leaves
  the handler's state and the world as they were.
\<close>

theorem apply_empty_log:
  "b_position bcfg = int (sizeof_dhdr K)
     \<Longrightarrow> binlog_apply K (Some bcfg) (Some func) u w = Some (Ret 0, u, [], w)"
  by (simp add: binlog_apply_def apply_loop.simps)

theorem apply_empty_log_witness:
  "b_position open_handle = int (sizeof_dhdr (packed_h 2 False))
   \<and> binlog_apply (packed_h 2 False) (Some open_handle) (Some counting) 0 open_world
       = Some (Ret 0, 0, [], open_world)"
  using apply_empty_log [of open_handle "packed_h 2 False" counting 0 open_world]
  by (simp add: packed_h_def open_handle_def)

text \<open>
  The descriptor \<open>binlog_apply\<close> reads into has a null key, so no read of it returns 0,
  and for every handle, handler and world the replay ends with no call of the handler.
\<close>

lemma read_null_key_fails:
  "binlog_read K (Some (zero_ctl\<lparr>c_cfg := Some bcfg\<rparr>)) off w = (Ret err, co, w1) \<Longrightarrow> err \<noteq> 0"
  by (auto simp: binlog_read_def read_payload_def read_fill_def zero_ctl_def Let_def errno_defs
      dest: read_record_hdr_None
      split: prod.splits outcome.splits option.splits if_splits)

lemma apply_never_delivers:
  "\<exists>r w'. binlog_apply K bp fp u w = Some (r, u, [], w')"
proof (cases bp)
  case None
  then show ?thesis by (simp add: binlog_apply_def)
next
  case (Some bcfg)
  show ?thesis
  proof (cases fp)
    case None
    with Some show ?thesis by (simp add: binlog_apply_def)
  next
    case (Some func)
    obtain res co w1
      where rd: "binlog_read K (Some (zero_ctl\<lparr>c_cfg := Some bcfg\<rparr>)) (int (sizeof_dhdr K)) w = (res, co, w1)"
      by (cases "binlog_read K (Some (zero_ctl\<lparr>c_cfg := Some bcfg\<rparr>)) (int (sizeof_dhdr K)) w") auto
    have "\<exists>r w'. apply_loop K bcfg func (int (sizeof_dhdr K)) u [] w = Some (r, u, [], w')"
      using rd read_null_key_fails [of K bcfg "int (sizeof_dhdr K)" w _ co w1]
      by (subst apply_loop.simps) (auto split: outcome.splits option.splits)
    with Some \<open>bp = Some bcfg\<close> show ?thesis by (auto simp: binlog_apply_def)
  qed
qed

text \<open>
  C2, at the log with one record. With assertions compiled in \<open>binlog_apply\<close> stops at
  its assertion, which demands a cursor at most the size of the disk header; with
  assertions compiled out it reads the record and faults on the null key of its
  descriptor. The handler is called for no record in either build.
\<close>

theorem apply_one_record_log_aborts:
  "binlog_apply (packed_h 2 False) (Some logged_handle) (Some counting) 0 logged_world
     = Some (AssertFail, 0, [], logged_world)
   \<and> binlog_apply (packed_h 2 True) (Some logged_handle) (Some counting) 0 logged_world
     = Some (SegFault, 0, [],
             logged_world\<lparr>calls := calls logged_world @ [Pread 3 28 20, Malloc 4, Pread 3 4 48]\<rparr>)"
  by (simp add: run_defs)

end
